theory Spec2Isabelle
  imports Complex_Main "HOL-Library.Word"
begin

section \<open>The XSens MVN calibrator: data model\<close>

text \<open>
  The development embeds \<^verbatim>\<open>src/XSensMVN/src/XSensMVNCalibrator.cpp\<close>, the class
  \<^verbatim>\<open>xsensmvn::XSensMVNCalibrator\<close>. The calibrator drives a tracking engine
  (\<^verbatim>\<open>XmeControl\<close>, a vendor class) through \<^verbatim>\<open>m_suitsConnector\<close> and is
  called back by it from another thread. Diagnostic output (\<^verbatim>\<open>xsInfo\<close>,
  \<^verbatim>\<open>xsWarning\<close>, \<^verbatim>\<open>xsError\<close>, \<^verbatim>\<open>std::cout\<close>) is left out: it
  never influences control flow.
\<close>

datatype CalibrationQuality = UNKNOWN | FAILED | POOR | ACCEPTABLE | GOOD

text \<open>
  Modelled from the spec: the enumerator order of \<^verbatim>\<open>xsensmvn::CalibrationQuality\<close>.
  The enumeration is declared in a header that is not among the sources, and the source
  compares two grades with the built-in \<^verbatim>\<open><\<close> of the enumeration (line 249). The
  spec's data model gives the order Unknown < Failed < Poor < Acceptable < Good.
\<close>

fun quality_rank :: "CalibrationQuality \<Rightarrow> nat" where
  "quality_rank UNKNOWN = 0"
| "quality_rank FAILED = 1"
| "quality_rank POOR = 2"
| "quality_rank ACCEPTABLE = 3"
| "quality_rank GOOD = 4"

definition quality_less :: "CalibrationQuality \<Rightarrow> CalibrationQuality \<Rightarrow> bool" where
  "quality_less a b = (quality_rank a < quality_rank b)"

text \<open>The vendor's grades, as the keys of \<^verbatim>\<open>CalibrationQualitiesMap\<close> (lines 22-27).\<close>

datatype XmeCalibrationQuality =
  XCalQ_Unknown | XCalQ_Failed | XCalQ_Poor | XCalQ_Acceptable | XCalQ_Good

fun CalibrationQualitiesMap :: "XmeCalibrationQuality \<Rightarrow> CalibrationQuality" where
  "CalibrationQualitiesMap XCalQ_Unknown = UNKNOWN"
| "CalibrationQualitiesMap XCalQ_Failed = FAILED"
| "CalibrationQualitiesMap XCalQ_Poor = POOR"
| "CalibrationQualitiesMap XCalQ_Acceptable = ACCEPTABLE"
| "CalibrationQualitiesMap XCalQ_Good = GOOD"

text \<open>The data members of the class, under their names in the source.\<close>

record calibrator =
  m_minimumAccaptableQuality :: CalibrationQuality
  m_achievedCalibrationQuality :: CalibrationQuality
  m_usedCalibrationType :: string
  m_calibrationAborted :: bool
  m_calibrationInProgress :: bool
  m_calibrationProcessed :: bool
  m_operationCompleted :: bool

text \<open>The member initialiser list of the constructor (lines 41-50).\<close>

definition XSensMVNCalibrator :: "CalibrationQuality \<Rightarrow> calibrator" where
  "XSensMVNCalibrator minAcceptableQuality =
     \<lparr> m_minimumAccaptableQuality = minAcceptableQuality,
       m_achievedCalibrationQuality = UNKNOWN,
       m_usedCalibrationType = '''',
       m_calibrationAborted = False,
       m_calibrationInProgress = False,
       m_calibrationProcessed = False,
       m_operationCompleted = True \<rparr>"

text \<open>
  \<^verbatim>\<open>cleanup\<close> (lines 343-349). The chained assignment of line 347 stores
  \<^verbatim>\<open>false\<close> in three members, \<^verbatim>\<open>m_operationCompleted\<close> among them.
\<close>

definition cleanup :: "calibrator \<Rightarrow> calibrator" where
  "cleanup s =
     s\<lparr> m_usedCalibrationType := '''',
        m_achievedCalibrationQuality := UNKNOWN,
        m_calibrationInProgress := False,
        m_operationCompleted := False,
        m_calibrationProcessed := False,
        m_calibrationAborted := False \<rparr>"

definition setMinimumAcceptableCalibrationQuality ::
    "CalibrationQuality \<Rightarrow> calibrator \<Rightarrow> bool \<times> calibrator" where
  "setMinimumAcceptableCalibrationQuality quality s =
     (True, s\<lparr> m_minimumAccaptableQuality := quality \<rparr>)"

subsection \<open>The callbacks of the tracking engine\<close>

text \<open>Lines 327-336: each callback raises one flag.\<close>

definition onCalibrationAborted :: "calibrator \<Rightarrow> calibrator" where
  "onCalibrationAborted s = s\<lparr> m_calibrationAborted := True \<rparr>"

definition onCalibrationComplete :: "calibrator \<Rightarrow> calibrator" where
  "onCalibrationComplete s = s\<lparr> m_operationCompleted := True \<rparr>"

definition onCalibrationProcessed :: "calibrator \<Rightarrow> calibrator" where
  "onCalibrationProcessed s = s\<lparr> m_calibrationProcessed := True \<rparr>"

datatype notification = CalibrationAborted | CalibrationComplete | CalibrationProcessed

fun dispatch :: "notification \<Rightarrow> calibrator \<Rightarrow> calibrator" where
  "dispatch CalibrationAborted s = onCalibrationAborted s"
| "dispatch CalibrationComplete s = onCalibrationComplete s"
| "dispatch CalibrationProcessed s = onCalibrationProcessed s"

subsection \<open>The tracking engine as an environment\<close>

text \<open>
  Every member function the calibrator calls on \<^verbatim>\<open>m_suitsConnector\<close>, queries included,
  in the order of the calls. Body dimensions are \<^verbatim>\<open>double\<close> in the source and reals
  here; frame numbers are \<^verbatim>\<open>int\<close> and never overflow (a frame is incremented only
  while it is less than another \<^verbatim>\<open>int\<close>).
\<close>

datatype handle_call =
    Status
  | BodyDimensionLabelList
  | SetBodyDimension string real
  | BodyDimensionValueEstimate string
  | IsCalibrationPerformed string
  | ClearCalibration string
  | InitializeCalibration string
  | CalibrationPhaseList
  | StartCalibration
  | CalibrationPhaseText int
  | CalibrationPose int
  | StopCalibration
  | CalibrationResult string
  | FinalizeCalibration
  | AbortCalibration

text \<open>
  What the engine answers. A query made once per member function has a fixed answer;
  \<^verbatim>\<open>isCalibrationPerformed\<close> is polled, so its answer may depend on the calls made so
  far and on the time. \<open>notifications h cs t d\<close> are the callbacks the engine's thread
  runs while the calibrator's thread sleeps from time \<open>t\<close> for \<open>d\<close> milliseconds, the
  engine having received the calls \<open>cs\<close>: the calibrator reads its flags only between
  two sleeps, so callbacks are delivered at the sleeps.
\<close>

record handle =
  isConnected :: bool
  bodyDimensionLabelList :: "string list"
  bodyDimensionValueEstimate :: "string \<Rightarrow> real"
  isCalibrationPerformed :: "handle_call list \<Rightarrow> nat \<Rightarrow> string \<Rightarrow> bool"
  calibrationPhaseList :: "int list"
  calibrationResult :: "string \<Rightarrow> XmeCalibrationQuality \<times> string list"
  notifications :: "handle_call list \<Rightarrow> nat \<Rightarrow> nat \<Rightarrow> notification list"

record world =
  calib :: calibrator
  calls :: "handle_call list"
  clock :: nat

definition issue :: "handle_call \<Rightarrow> world \<Rightarrow> world" where
  "issue c w = w\<lparr> calls := calls w @ [c] \<rparr>"

definition sleep_for :: "handle \<Rightarrow> nat \<Rightarrow> world \<Rightarrow> world" where
  "sleep_for h ms w =
     w\<lparr> calib := fold dispatch (notifications h (calls w) (clock w) ms) (calib w),
        clock := clock w + ms \<rparr>"

text \<open>
  A polling loop \<^verbatim>\<open>while (guard) sleep_for(ms);\<close>. The guard may itself call the
  engine, so it returns the world too. A loop whose guard never fails does not return:
  its value is \<open>None\<close>.
\<close>

partial_function (option) busy_wait ::
    "handle \<Rightarrow> nat \<Rightarrow> (world \<Rightarrow> bool \<times> world) \<Rightarrow> world \<Rightarrow> world option" where
  "busy_wait h ms guard w =
     (if fst (guard w) then busy_wait h ms guard (sleep_for h ms (snd (guard w)))
      else Some (snd (guard w)))"

declare busy_wait.simps [code]

text \<open>
  The five polling loops of the source, each with the test of its \<^verbatim>\<open>while\<close>:
  line 105 (\<^verbatim>\<open>setBodyDimensions\<close>), and lines 167, 218, 261 and 273
  (\<^verbatim>\<open>calibrateWithType\<close>). The test of line 167 asks the engine first, at every
  turn.
\<close>

definition wait_operation_completed :: "handle \<Rightarrow> world \<Rightarrow> world option" where
  "wait_operation_completed h w =
     busy_wait h 10 (\<lambda>w. (\<not> m_operationCompleted (calib w), w)) w"

definition discard_guard :: "handle \<Rightarrow> string \<Rightarrow> world \<Rightarrow> bool \<times> world" where
  "discard_guard h calibrationType w =
     (isCalibrationPerformed h (calls w) (clock w) calibrationType
        \<and> \<not> m_calibrationAborted (calib w),
      issue (IsCalibrationPerformed calibrationType) w)"

definition wait_discarded :: "handle \<Rightarrow> string \<Rightarrow> world \<Rightarrow> world option" where
  "wait_discarded h calibrationType w = busy_wait h 10 (discard_guard h calibrationType) w"

definition wait_processed :: "handle \<Rightarrow> world \<Rightarrow> world option" where
  "wait_processed h w =
     busy_wait h 10
       (\<lambda>w. (\<not> m_calibrationProcessed (calib w) \<and> \<not> m_calibrationAborted (calib w), w)) w"

definition wait_aborted :: "handle \<Rightarrow> world \<Rightarrow> world option" where
  "wait_aborted h w = busy_wait h 10 (\<lambda>w. (\<not> m_calibrationAborted (calib w), w)) w"

definition wait_finalized :: "handle \<Rightarrow> world \<Rightarrow> world option" where
  "wait_finalized h w =
     busy_wait h 10
       (\<lambda>w. (\<not> m_operationCompleted (calib w) \<and> \<not> m_calibrationAborted (calib w), w)) w"

text \<open>\<^verbatim>\<open>abortCalibration\<close> (lines 294-303).\<close>

definition abortCalibration :: "world \<Rightarrow> bool \<times> world" where
  "abortCalibration w =
     (if m_calibrationInProgress (calib w) then (True, issue AbortCalibration w)
      else (False, w))"

subsection \<open>Body dimensions\<close>

text \<open>
  \<^verbatim>\<open>setBodyDimensions\<close> (lines 72-111). The argument is a \<^verbatim>\<open>std::map\<close>, given
  here by the list of its entries in iteration order. \<^verbatim>\<open>bodyDimList.find(label) == -1\<close>
  is read as: the label is not an element of the list. The label list is fetched
  (line 86) before the map is tested for emptiness (line 88).
\<close>

definition apply_dimension :: "string list \<Rightarrow> string \<times> real \<Rightarrow> world \<Rightarrow> world" where
  "apply_dimension bodyDimList pair w =
     (if fst pair \<notin> set bodyDimList then w
      else issue (SetBodyDimension (fst pair) (snd pair)) w)"

definition setBodyDimensions ::
    "handle \<Rightarrow> (string \<times> real) list \<Rightarrow> world \<Rightarrow> (bool \<times> world) option" where
  "setBodyDimensions h bodyDimensions w =
     (let w1 = issue Status w in
      if \<not> isConnected h then Some (False, w1)
      else if \<not> m_operationCompleted (calib w1) then Some (False, w1)
      else
        let w2 = issue BodyDimensionLabelList w1;
            bodyDimList = bodyDimensionLabelList h
        in
          if bodyDimensions = [] then Some (False, w2)
          else
            let w3 = w2\<lparr> calib := (calib w2)\<lparr> m_operationCompleted := False \<rparr> \<rparr>;
                w4 = fold (apply_dimension bodyDimList) bodyDimensions w3
            in
              case wait_operation_completed h w4 of
                None \<Rightarrow> None
              | Some w5 \<Rightarrow> Some (m_operationCompleted (calib w5), w5))"

text \<open>
  \<^verbatim>\<open>static_cast<int>\<close> of a \<^verbatim>\<open>double\<close> drops the fractional part (values
  outside the range of \<^verbatim>\<open>int\<close> are not modelled).
\<close>

definition static_cast_int :: "real \<Rightarrow> int" where
  "static_cast_int v = (if 0 \<le> v then \<lfloor>v\<rfloor> else - \<lfloor>- v\<rfloor>)"

text \<open>
  \<^verbatim>\<open>getBodyDimensions\<close> (lines 114-137). \<^verbatim>\<open>std::map::insert\<close> keeps the value
  of a key that is already present.
\<close>

definition insert_dimension ::
    "handle \<Rightarrow> string \<Rightarrow> (string \<rightharpoonup> real) \<times> world \<Rightarrow> (string \<rightharpoonup> real) \<times> world" where
  "insert_dimension h body dw =
     (let value = bodyDimensionValueEstimate h body;
          w1 = issue (BodyDimensionValueEstimate body) (snd dw)
      in if static_cast_int value \<noteq> - 1
         then (if fst dw body = None then (fst dw)(body \<mapsto> value) else fst dw, w1)
         else (fst dw, w1))"

definition getBodyDimensions ::
    "handle \<Rightarrow> (string \<rightharpoonup> real) \<Rightarrow> world \<Rightarrow> bool \<times> (string \<rightharpoonup> real) \<times> world" where
  "getBodyDimensions h dimensions w =
     (let w1 = issue Status w in
      if \<not> isConnected h then (False, dimensions, w1)
      else
        let w2 = issue BodyDimensionLabelList w1;
            bodyDimList = bodyDimensionLabelList h;
            dw = fold (insert_dimension h) bodyDimList (dimensions, w2)
        in (True, fst dw, snd dw))"

text \<open>
  What a C++ program must not do, and the source does on some inputs.
\<close>

datatype fault = End_iterator_dereference | Index_out_of_range

text \<open>
  \<^verbatim>\<open>getBodyDimension\<close> (lines 139-150). The test of line 144 is
  \<^verbatim>\<open>it != dimensions.end()\<close>: a name that was found takes the branch that returns
  \<^verbatim>\<open>false\<close>, and a name that was not found reaches \<^verbatim>\<open>it->second\<close> with
  \<^verbatim>\<open>it\<close> the end iterator. The output parameter \<^verbatim>\<open>dim\<close> is passed in and out, as \<open>dim_io\<close>.
\<close>

definition getBodyDimension ::
    "handle \<Rightarrow> string \<Rightarrow> real \<Rightarrow> world \<Rightarrow> fault + (bool \<times> real \<times> world)" where
  "getBodyDimension h bodyName dim_io w =
     (let r = getBodyDimensions h Map.empty w;
          dimensions = fst (snd r);
          w1 = snd (snd r)
      in case dimensions bodyName of
           Some v \<Rightarrow> Inr (False, dim_io, w1)
         | None \<Rightarrow> Inl End_iterator_dereference)"

subsection \<open>The calibration routine\<close>

text \<open>
  \<^verbatim>\<open>calibrateWithType\<close> (lines 153-291) is cut at its \<^verbatim>\<open>return\<close> statements into
  four stages. A stage either leaves the function (\<open>Exit\<close>, with the value returned)
  or falls through to the next statement (\<open>Proceed\<close>).
\<close>

datatype stage = Exit bool world | Proceed world

definition failure :: "world \<Rightarrow> stage" where
  \<comment> \<open>\<^verbatim>\<open>cleanup(); return false;\<close>\<close>
  "failure w = Exit False (w\<lparr> calib := cleanup (calib w) \<rparr>)"

definition next_stage ::
    "(fault + stage) option \<Rightarrow> (world \<Rightarrow> (fault + stage) option) \<Rightarrow> (fault + stage) option" where
  "next_stage r k =
     (case r of
        None \<Rightarrow> None
      | Some (Inl f) \<Rightarrow> Some (Inl f)
      | Some (Inr (Exit b w)) \<Rightarrow> Some (Inr (Exit b w))
      | Some (Inr (Proceed w)) \<Rightarrow> k w)"

text \<open>Lines 155-173: discard a previous calibration of the same type.\<close>

definition discard_stage :: "handle \<Rightarrow> string \<Rightarrow> world \<Rightarrow> (fault + stage) option" where
  "discard_stage h calibrationType w =
     (let w1 = w\<lparr> calib := (calib w)\<lparr> m_calibrationInProgress := True \<rparr> \<rparr>;
          performed = isCalibrationPerformed h (calls w1) (clock w1) calibrationType;
          w2 = issue (IsCalibrationPerformed calibrationType) w1;
          w3 = (if performed
                then issue (ClearCalibration calibrationType)
                       (w2\<lparr> calib := (calib w2)\<lparr> m_usedCalibrationType := '''',
                                                m_achievedCalibrationQuality := UNKNOWN,
                                                m_operationCompleted := False \<rparr> \<rparr>)
                else w2)
      in case wait_discarded h calibrationType w3 of
           None \<Rightarrow> None
         | Some w4 \<Rightarrow>
             if m_calibrationAborted (calib w4) then Some (Inr (failure w4))
             else Some (Inr (Proceed w4)))"

text \<open>
  Lines 192-198, the frames of one phase. The loop ends: the first frame grows towards
  the last.
\<close>

function collect_frames :: "handle \<Rightarrow> int \<Rightarrow> int \<Rightarrow> world \<Rightarrow> world" where
  "collect_frames h startingFrame endingFrame w =
     (if startingFrame < endingFrame \<and> \<not> m_calibrationAborted (calib w)
      then collect_frames h (startingFrame + 1) endingFrame
             (sleep_for h 16 (issue (CalibrationPose startingFrame) w))
      else w)"
  by pat_completeness auto
termination
  by (relation "measure (\<lambda>(h, startingFrame, endingFrame, w). nat (endingFrame - startingFrame))")
     auto

text \<open>
  Lines 187-205, the loop over the phases. \<^verbatim>\<open>phase\<close> is an \<^verbatim>\<open>unsigned int\<close>
  and \<^verbatim>\<open>calibPhases.size()\<close> an unsigned 64-bit size, so the bound
  \<^verbatim>\<open>calibPhases.size() - 1\<close> is computed modulo \<open>2 ^ 64\<close>. Reading the array outside
  its bounds is a fault.
\<close>

partial_function (option) collect_phases ::
    "handle \<Rightarrow> int list \<Rightarrow> 32 word \<Rightarrow> world \<Rightarrow> (fault + stage) option" where
  "collect_phases h calibPhases phase w =
     (if (ucast phase :: 64 word) < of_nat (length calibPhases) - 1 then
        (if unat phase < length calibPhases \<and> unat (phase + 1) < length calibPhases then
           (let startingFrame = calibPhases ! unat phase;
                endingFrame = calibPhases ! unat (phase + 1);
                w1 = issue (CalibrationPhaseText (sint phase)) w;
                w2 = collect_frames h startingFrame endingFrame w1
            in if m_calibrationAborted (calib w2) then Some (Inr (failure w2))
               else collect_phases h calibPhases (phase + 1) w2)
         else Some (Inl Index_out_of_range))
      else Some (Inr (Proceed w)))"

declare collect_frames.simps [simp del]
declare collect_phases.simps [code]

text \<open>Lines 176-205: initialise, wait three seconds, start, collect.\<close>

definition collection_stage :: "handle \<Rightarrow> string \<Rightarrow> world \<Rightarrow> (fault + stage) option" where
  "collection_stage h calibrationType w =
     (let w1 = issue (InitializeCalibration calibrationType) w;
          calibPhases = calibrationPhaseList h;
          w2 = issue CalibrationPhaseList w1;
          w3 = sleep_for h 3000 w2;
          w4 = issue StartCalibration w3
      in collect_phases h calibPhases 0 w4)"

text \<open>Lines 208-227: stop, and wait for the data to be processed.\<close>

definition processing_stage :: "handle \<Rightarrow> world \<Rightarrow> (fault + stage) option" where
  "processing_stage h w =
     (let w1 = issue StopCalibration w;
          w2 = w1\<lparr> calib := (calib w1)\<lparr> m_calibrationProcessed := False \<rparr> \<rparr>;
          w3 = sleep_for h 100 w2
      in case wait_processed h w3 of
           None \<Rightarrow> None
         | Some w4 \<Rightarrow>
             if m_calibrationAborted (calib w4) then Some (Inr (failure w4))
             else Some (Inr (Proceed w4)))"

text \<open>
  Lines 232-283: fetch the result and apply the quality policy. The branch that
  accepts falls out of the \<^verbatim>\<open>else\<close> to line 285.
\<close>

definition evaluation_stage :: "handle \<Rightarrow> string \<Rightarrow> world \<Rightarrow> (fault + stage) option" where
  "evaluation_stage h calibrationType w =
     (let w1 = issue (CalibrationResult calibrationType) w;
          quality = fst (calibrationResult h calibrationType)
      in if quality_less (CalibrationQualitiesMap quality) (m_minimumAccaptableQuality (calib w1))
         then
           (case wait_aborted h (snd (abortCalibration w1)) of
              None \<Rightarrow> None
            | Some w2 \<Rightarrow> Some (Inr (failure w2)))
         else
           (case wait_finalized h (issue FinalizeCalibration w1) of
              None \<Rightarrow> None
            | Some w2 \<Rightarrow>
                if m_calibrationAborted (calib w2) then Some (Inr (failure w2))
                else Some (Inr (Proceed w2))))"

text \<open>Lines 285-290: record the calibration.\<close>

definition commit :: "handle \<Rightarrow> string \<Rightarrow> world \<Rightarrow> world" where
  "commit h calibrationType w =
     w\<lparr> calib := (calib w)
          \<lparr> m_usedCalibrationType := calibrationType,
            m_achievedCalibrationQuality :=
              CalibrationQualitiesMap (fst (calibrationResult h calibrationType)),
            m_calibrationInProgress := False \<rparr> \<rparr>"

text \<open>The stages before the result is fetched, and the whole member function.\<close>

definition acquisition :: "handle \<Rightarrow> string \<Rightarrow> world \<Rightarrow> (fault + stage) option" where
  "acquisition h calibrationType w =
     next_stage
       (next_stage (discard_stage h calibrationType w) (collection_stage h calibrationType))
       (processing_stage h)"

definition calibrateWithType ::
    "handle \<Rightarrow> string \<Rightarrow> world \<Rightarrow> (fault + bool \<times> world) option" where
  "calibrateWithType h calibrationType w =
     (case next_stage (acquisition h calibrationType w) (evaluation_stage h calibrationType) of
        None \<Rightarrow> None
      | Some (Inl f) \<Rightarrow> Some (Inl f)
      | Some (Inr (Exit b w')) \<Rightarrow> Some (Inr (b, w'))
      | Some (Inr (Proceed w')) \<Rightarrow> Some (Inr (True, commit h calibrationType w')))"

subsection \<open>Vocabulary for the polling loops\<close>

text \<open>
  One turn of a polling loop: the guard is evaluated (it may call the engine), then the
  thread sleeps. \<open>exits_at\<close> says that a loop started in \<open>w\<close> leaves in \<open>w'\<close>: the
  guard held at every turn before the \<open>n\<close>-th and fails at the \<open>n\<close>-th.
\<close>

definition poll :: "handle \<Rightarrow> nat \<Rightarrow> (world \<Rightarrow> bool \<times> world) \<Rightarrow> world \<Rightarrow> world" where
  "poll h ms guard w = sleep_for h ms (snd (guard w))"

definition exits_at ::
    "handle \<Rightarrow> nat \<Rightarrow> (world \<Rightarrow> bool \<times> world) \<Rightarrow> world \<Rightarrow> world \<Rightarrow> bool" where
  "exits_at h ms guard w w' =
     (\<exists>n. (\<forall>m<n. fst (guard ((poll h ms guard ^^ m) w)))
           \<and> \<not> fst (guard ((poll h ms guard ^^ n) w))
           \<and> w' = snd (guard ((poll h ms guard ^^ n) w)))"

text \<open>
  The commands \<^verbatim>\<open>setBodyDimensions\<close> sends for a map: one per entry whose label
  the engine knows, in the order of the map. \<open>dimensions_sent\<close> is the world when its
  loop over the map is left.
\<close>

definition dimension_commands :: "string list \<Rightarrow> (string \<times> real) list \<Rightarrow> handle_call list" where
  "dimension_commands bodyDimList bodyDimensions =
     map (\<lambda>pair. SetBodyDimension (fst pair) (snd pair))
       (filter (\<lambda>pair. fst pair \<in> set bodyDimList) bodyDimensions)"

definition dimensions_sent :: "handle \<Rightarrow> (string \<times> real) list \<Rightarrow> world \<Rightarrow> world" where
  "dimensions_sent h bodyDimensions w =
     w\<lparr> calib := (calib w)\<lparr> m_operationCompleted := False \<rparr>,
        calls := calls w @ [Status, BodyDimensionLabelList]
                   @ dimension_commands (bodyDimensionLabelList h) bodyDimensions \<rparr>"

subsection \<open>An engine for the examples\<close>

text \<open>
  A connected engine that knows two body dimensions and has measured one of them, holds
  no previous calibration, has two phases of two frames, grades the calibration as it is
  told to, and answers each command at the next sleep of the calibrator.
\<close>

fun answer :: "handle_call \<Rightarrow> notification list" where
  "answer (SetBodyDimension _ _) = [CalibrationComplete]"
| "answer (ClearCalibration _) = [CalibrationComplete]"
| "answer FinalizeCalibration = [CalibrationComplete]"
| "answer StopCalibration = [CalibrationProcessed]"
| "answer AbortCalibration = [CalibrationAborted]"
| "answer _ = []"

definition suit :: "XmeCalibrationQuality \<Rightarrow> handle" where
  "suit q =
     \<lparr> isConnected = True,
       bodyDimensionLabelList = [''ankleHeight'', ''armSpan''],
       bodyDimensionValueEstimate = (\<lambda>label. if label = ''armSpan'' then 2 else - 1),
       isCalibrationPerformed = (\<lambda>cs t calibrationType. False),
       calibrationPhaseList = [0, 2, 4],
       calibrationResult = (\<lambda>calibrationType. (q, [])),
       notifications = (\<lambda>cs t d. if cs = [] then [] else answer (last cs)) \<rparr>"

definition fresh :: world where
  "fresh = \<lparr> calib = XSensMVNCalibrator ACCEPTABLE, calls = [], clock = 0 \<rparr>"

text \<open>
  The world in which that engine has been taken through discarding, collection and
  processing for the type \<open>''Npose''\<close>, from \<open>fresh\<close>: \<^verbatim>\<open>calibrateWithType\<close> is about
  to fetch the result.
\<close>

definition acquired :: world where
  "acquired =
     \<lparr> calib = (XSensMVNCalibrator ACCEPTABLE)
                 \<lparr> m_calibrationInProgress := True, m_calibrationProcessed := True \<rparr>,
       calls = [IsCalibrationPerformed ''Npose'', IsCalibrationPerformed ''Npose'',
                InitializeCalibration ''Npose'', CalibrationPhaseList, StartCalibration,
                CalibrationPhaseText 0, CalibrationPose 0, CalibrationPose 1,
                CalibrationPhaseText 1, CalibrationPose 2, CalibrationPose 3,
                StopCalibration],
       clock = 3164 \<rparr>"

text \<open>
  The same engine, confirming an abort during the first ten milliseconds and completing
  a request only between the twentieth and the thirtieth.
\<close>

definition interrupting :: handle where
  "interrupting =
     (suit XCalQ_Good)
       \<lparr> notifications := (\<lambda>cs t d. if t = 0 then [CalibrationAborted]
                                    else if t = 20 then [CalibrationComplete] else []) \<rparr>"


text \<open>
  The first engine again, confirming an abort while the calibrator sleeps after the
  second frame of the first phase.
\<close>

definition abandoning :: handle where
  "abandoning =
     (suit XCalQ_Good)
       \<lparr> notifications := (\<lambda>cs t d. if t = 3016 then [CalibrationAborted]
                                    else if cs = [] then [] else answer (last cs)) \<rparr>"

section \<open>Properties\<close>

subsection \<open>The state of the calibrator\<close>

lemma cleanup_fields [simp]:
  "m_usedCalibrationType (cleanup s) = ''''"
  "m_achievedCalibrationQuality (cleanup s) = UNKNOWN"
  "m_calibrationInProgress (cleanup s) = False"
  "m_calibrationAborted (cleanup s) = False"
  "m_calibrationProcessed (cleanup s) = False"
  "m_operationCompleted (cleanup s) = False"
  "m_minimumAccaptableQuality (cleanup s) = m_minimumAccaptableQuality s"
  by (simp_all add: cleanup_def)

lemma cleanup_determined:
  "m_minimumAccaptableQuality s = m_minimumAccaptableQuality t \<Longrightarrow> cleanup s = cleanup t"
  by (cases s, cases t) (simp add: cleanup_def)

text \<open>
  Claim C7. \<^verbatim>\<open>cleanup\<close> is idempotent: from every state, calling it twice leaves the
  calibrator (the type and quality of the last calibration, the four flags, and the
  threshold) as calling it once does.
\<close>

theorem cleanup_idempotent: "cleanup (cleanup s) = cleanup s"
  by (simp add: cleanup_def)

text \<open>
  Claim C3 says that \<^verbatim>\<open>cleanup\<close> restores the state the constructor builds, with
  \<^verbatim>\<open>m_operationCompleted\<close> true. The constructor sets that flag (line 50); the chained
  assignment of line 347 clears it. So no state after \<^verbatim>\<open>cleanup\<close> is a constructed
  state, the other five members agree with it, and \<^verbatim>\<open>setBodyDimensions\<close> called
  next refuses to work: it returns \<^verbatim>\<open>false\<close> after asking the engine for its status
  only.
\<close>

theorem cleanup_clears_operationCompleted:
  "m_operationCompleted (XSensMVNCalibrator q) = True
   \<and> m_operationCompleted (cleanup s) = False
   \<and> cleanup s \<noteq> XSensMVNCalibrator q
   \<and> (cleanup s)\<lparr> m_operationCompleted := True \<rparr>
       = XSensMVNCalibrator (m_minimumAccaptableQuality s)
   \<and> setBodyDimensions h bodyDimensions (w\<lparr> calib := cleanup (calib w) \<rparr>)
       = Some (False, issue Status (w\<lparr> calib := cleanup (calib w) \<rparr>))"
proof -
  have "cleanup s \<noteq> XSensMVNCalibrator q"
  proof
    assume "cleanup s = XSensMVNCalibrator q"
    then have "m_operationCompleted (cleanup s) = m_operationCompleted (XSensMVNCalibrator q)"
      by simp
    then show False by (simp add: XSensMVNCalibrator_def)
  qed
  moreover have "(cleanup s)\<lparr> m_operationCompleted := True \<rparr>
       = XSensMVNCalibrator (m_minimumAccaptableQuality s)"
    by (cases s) (simp add: cleanup_def XSensMVNCalibrator_def)
  moreover have "setBodyDimensions h bodyDimensions (w\<lparr> calib := cleanup (calib w) \<rparr>)
       = Some (False, issue Status (w\<lparr> calib := cleanup (calib w) \<rparr>))"
    by (simp add: setBodyDimensions_def Let_def issue_def)
  ultimately show ?thesis
    by (simp add: XSensMVNCalibrator_def)
qed

text \<open>
  Claim C4. \<^verbatim>\<open>abortCalibration\<close> returns \<^verbatim>\<open>m_calibrationInProgress\<close>; when that
  is true it sends the abort command, and nothing else, to the engine, and when it is
  false it sends nothing. It never writes a member of the calibrator, so the flag
  \<^verbatim>\<open>m_calibrationAborted\<close> is as it was. Of the callbacks, the constructor and
  \<^verbatim>\<open>cleanup\<close>, only \<^verbatim>\<open>onCalibrationAborted\<close> raises that flag.
\<close>

theorem abortCalibration_contract:
  "fst (abortCalibration w) = m_calibrationInProgress (calib w)
   \<and> calls (snd (abortCalibration w))
       = (if m_calibrationInProgress (calib w) then calls w @ [AbortCalibration] else calls w)
   \<and> calib (snd (abortCalibration w)) = calib w
   \<and> clock (snd (abortCalibration w)) = clock w
   \<and> m_calibrationAborted (onCalibrationAborted s) = True
   \<and> m_calibrationAborted (onCalibrationComplete s) = m_calibrationAborted s
   \<and> m_calibrationAborted (onCalibrationProcessed s) = m_calibrationAborted s
   \<and> m_calibrationAborted (cleanup s) = False
   \<and> m_calibrationAborted (XSensMVNCalibrator q) = False"
  by (simp add: abortCalibration_def issue_def onCalibrationAborted_def
      onCalibrationComplete_def onCalibrationProcessed_def XSensMVNCalibrator_def)

subsection \<open>Callbacks and sleeping\<close>

lemma dispatch_frame [simp]:
  "m_minimumAccaptableQuality (dispatch e s) = m_minimumAccaptableQuality s"
  "m_calibrationInProgress (dispatch e s) = m_calibrationInProgress s"
  "m_usedCalibrationType (dispatch e s) = m_usedCalibrationType s"
  "m_achievedCalibrationQuality (dispatch e s) = m_achievedCalibrationQuality s"
  by (cases e; simp add: onCalibrationAborted_def onCalibrationComplete_def
      onCalibrationProcessed_def)+

lemma dispatch_flags [simp]:
  "m_calibrationAborted (dispatch e s) = (m_calibrationAborted s \<or> e = CalibrationAborted)"
  "m_operationCompleted (dispatch e s) = (m_operationCompleted s \<or> e = CalibrationComplete)"
  "m_calibrationProcessed (dispatch e s) = (m_calibrationProcessed s \<or> e = CalibrationProcessed)"
  by (cases e; simp add: onCalibrationAborted_def onCalibrationComplete_def
      onCalibrationProcessed_def)+

lemma fold_dispatch_frame [simp]:
  "m_minimumAccaptableQuality (fold dispatch es s) = m_minimumAccaptableQuality s"
  "m_calibrationInProgress (fold dispatch es s) = m_calibrationInProgress s"
  "m_usedCalibrationType (fold dispatch es s) = m_usedCalibrationType s"
  "m_achievedCalibrationQuality (fold dispatch es s) = m_achievedCalibrationQuality s"
  by (induction es arbitrary: s; simp)+

lemma fold_dispatch_flags:
  "m_calibrationAborted (fold dispatch es s)
     = (m_calibrationAborted s \<or> CalibrationAborted \<in> set es)"
  "m_operationCompleted (fold dispatch es s)
     = (m_operationCompleted s \<or> CalibrationComplete \<in> set es)"
  "m_calibrationProcessed (fold dispatch es s)
     = (m_calibrationProcessed s \<or> CalibrationProcessed \<in> set es)"
  by (induction es arbitrary: s; auto)+

lemma sleep_for_frame [simp]:
  "calls (sleep_for h ms w) = calls w"
  "clock (sleep_for h ms w) = clock w + ms"
  "m_minimumAccaptableQuality (calib (sleep_for h ms w)) = m_minimumAccaptableQuality (calib w)"
  "m_calibrationInProgress (calib (sleep_for h ms w)) = m_calibrationInProgress (calib w)"
  "m_usedCalibrationType (calib (sleep_for h ms w)) = m_usedCalibrationType (calib w)"
  "m_achievedCalibrationQuality (calib (sleep_for h ms w)) = m_achievedCalibrationQuality (calib w)"
  by (simp_all add: sleep_for_def)

lemma sleep_for_flags:
  "m_calibrationAborted (calib (sleep_for h ms w))
     = (m_calibrationAborted (calib w)
        \<or> CalibrationAborted \<in> set (notifications h (calls w) (clock w) ms))"
  "m_operationCompleted (calib (sleep_for h ms w))
     = (m_operationCompleted (calib w)
        \<or> CalibrationComplete \<in> set (notifications h (calls w) (clock w) ms))"
  "m_calibrationProcessed (calib (sleep_for h ms w))
     = (m_calibrationProcessed (calib w)
        \<or> CalibrationProcessed \<in> set (notifications h (calls w) (clock w) ms))"
  by (simp_all add: sleep_for_def fold_dispatch_flags)

lemma issue_frame [simp]:
  "calls (issue c w) = calls w @ [c]"
  "clock (issue c w) = clock w"
  "calib (issue c w) = calib w"
  by (simp_all add: issue_def)

lemma sleeps_frame [simp]:
  "calls ((sleep_for h ms ^^ n) w) = calls w"
  "clock ((sleep_for h ms ^^ n) w) = clock w + n * ms"
  "m_minimumAccaptableQuality (calib ((sleep_for h ms ^^ n) w)) = m_minimumAccaptableQuality (calib w)"
  "m_calibrationInProgress (calib ((sleep_for h ms ^^ n) w)) = m_calibrationInProgress (calib w)"
  "m_usedCalibrationType (calib ((sleep_for h ms ^^ n) w)) = m_usedCalibrationType (calib w)"
  "m_achievedCalibrationQuality (calib ((sleep_for h ms ^^ n) w)) = m_achievedCalibrationQuality (calib w)"
  by (induction n; simp)+


subsection \<open>Polling loops\<close>

lemma busy_wait_step:
  "fst (guard w) \<Longrightarrow> busy_wait h ms guard w = busy_wait h ms guard (poll h ms guard w)"
  by (subst busy_wait.simps) (simp add: poll_def)

lemma busy_wait_stop:
  "\<not> fst (guard w) \<Longrightarrow> busy_wait h ms guard w = Some (snd (guard w))"
  by (subst busy_wait.simps) simp

lemma busy_wait_unroll:
  "(\<And>m. m < n \<Longrightarrow> fst (guard ((poll h ms guard ^^ m) w))) \<Longrightarrow>
   busy_wait h ms guard w = busy_wait h ms guard ((poll h ms guard ^^ n) w)"
proof (induction n)
  case 0
  show ?case by simp
next
  case (Suc n)
  have "busy_wait h ms guard w = busy_wait h ms guard ((poll h ms guard ^^ n) w)"
    using Suc.IH Suc.prems by simp
  also have "\<dots> = busy_wait h ms guard (poll h ms guard ((poll h ms guard ^^ n) w))"
    using Suc.prems [of n] by (intro busy_wait_step) simp
  finally show ?case by simp
qed

lemma busy_wait_exit:
  assumes "\<And>m. m < n \<Longrightarrow> fst (guard ((poll h ms guard ^^ m) w))"
    and "\<not> fst (guard ((poll h ms guard ^^ n) w))"
  shows "busy_wait h ms guard w = Some (snd (guard ((poll h ms guard ^^ n) w)))"
proof -
  have "busy_wait h ms guard w = busy_wait h ms guard ((poll h ms guard ^^ n) w)"
    using assms(1) by (rule busy_wait_unroll)
  also have "\<dots> = Some (snd (guard ((poll h ms guard ^^ n) w)))"
    using assms(2) by (rule busy_wait_stop)
  finally show ?thesis .
qed

lemma exits_at_now: "\<not> fst (guard w) \<Longrightarrow> exits_at h ms guard w (snd (guard w))"
  unfolding exits_at_def by (rule exI [of _ 0]) simp

lemma exits_at_later:
  assumes "fst (guard w)" and "exits_at h ms guard (poll h ms guard w) w'"
  shows "exits_at h ms guard w w'"
proof -
  from assms(2) obtain n where n:
      "\<And>m. m < n \<Longrightarrow> fst (guard ((poll h ms guard ^^ m) (poll h ms guard w)))"
      "\<not> fst (guard ((poll h ms guard ^^ n) (poll h ms guard w)))"
      "w' = snd (guard ((poll h ms guard ^^ n) (poll h ms guard w)))"
    unfolding exits_at_def by blast
  have "fst (guard ((poll h ms guard ^^ m) w))" if "m < Suc n" for m
  proof (cases m)
    case 0
    with assms(1) show ?thesis by simp
  next
    case (Suc k)
    with that have "k < n" by simp
    from n(1) [OF this] show ?thesis
      unfolding Suc funpow_Suc_right by simp
  qed
  moreover have "\<not> fst (guard ((poll h ms guard ^^ Suc n) w))"
    using n(2) unfolding funpow_Suc_right by simp
  moreover have "w' = snd (guard ((poll h ms guard ^^ Suc n) w))"
    using n(3) unfolding funpow_Suc_right by simp
  ultimately show ?thesis
    unfolding exits_at_def by blast
qed

lemma busy_wait_Some_D:
  assumes "busy_wait h ms guard w = Some w'"
  shows "exits_at h ms guard w w'"
proof (rule busy_wait.raw_induct [where P = exits_at, OF _ assms])
  fix busy_wait' h ms guard w w'
  assume IH: "\<And>h ms guard w w'. busy_wait' h ms guard w = Some w' \<Longrightarrow> exits_at h ms guard w w'"
    and eq: "(if fst (guard w) then busy_wait' h ms guard (sleep_for h ms (snd (guard w)))
              else Some (snd (guard w))) = Some w'"
  show "exits_at h ms guard w w'"
  proof (cases "fst (guard w)")
    case False
    with eq have "w' = snd (guard w)" by simp
    with False show ?thesis by (simp add: exits_at_now)
  next
    case True
    with eq have "busy_wait' h ms guard (poll h ms guard w) = Some w'"
      by (simp add: poll_def)
    then have "exits_at h ms guard (poll h ms guard w) w'" by (rule IH)
    with True show ?thesis by (rule exits_at_later)
  qed
qed

lemma busy_wait_Some_iff:
  "busy_wait h ms guard w = Some w' \<longleftrightarrow> exits_at h ms guard w w'"
proof
  assume "busy_wait h ms guard w = Some w'"
  then show "exits_at h ms guard w w'" by (rule busy_wait_Some_D)
next
  assume "exits_at h ms guard w w'"
  then obtain n where "\<And>m. m < n \<Longrightarrow> fst (guard ((poll h ms guard ^^ m) w))"
      "\<not> fst (guard ((poll h ms guard ^^ n) w))"
      "w' = snd (guard ((poll h ms guard ^^ n) w))"
    unfolding exits_at_def by blast
  then show "busy_wait h ms guard w = Some w'"
    using busy_wait_exit [of n guard h ms w] by simp
qed

lemma busy_wait_None:
  assumes "\<And>n. fst (guard ((poll h ms guard ^^ n) w))"
  shows "busy_wait h ms guard w = None"
proof (cases "busy_wait h ms guard w")
  case None
  then show ?thesis .
next
  case (Some w')
  from busy_wait_Some_D [OF this] obtain n where "\<not> fst (guard ((poll h ms guard ^^ n) w))"
    unfolding exits_at_def by blast
  with assms [of n] show ?thesis by simp
qed

text \<open>A loop returns as soon as its guard can fail: at the first turn where it does.\<close>

lemma busy_wait_returns:
  assumes "\<not> fst (guard ((poll h ms guard ^^ n) w))"
  shows "\<exists>k\<le>n. (\<forall>m<k. fst (guard ((poll h ms guard ^^ m) w)))
            \<and> \<not> fst (guard ((poll h ms guard ^^ k) w))
            \<and> busy_wait h ms guard w = Some (snd (guard ((poll h ms guard ^^ k) w)))"
proof -
  define k where "k = (LEAST k. \<not> fst (guard ((poll h ms guard ^^ k) w)))"
  have k: "\<not> fst (guard ((poll h ms guard ^^ k) w))"
    unfolding k_def using assms by (rule LeastI)
  have le: "k \<le> n"
    unfolding k_def using assms by (rule Least_le)
  have before: "fst (guard ((poll h ms guard ^^ m) w))" if "m < k" for m
    using that not_less_Least unfolding k_def by blast
  from before k have "busy_wait h ms guard w = Some (snd (guard ((poll h ms guard ^^ k) w)))"
    by (rule busy_wait_exit)
  with k le before show ?thesis by blast
qed

text \<open>What no turn of a loop changes is the same when the loop is left.\<close>

lemma busy_wait_preserves:
  assumes "busy_wait h ms guard w = Some w'"
    and "\<And>v. obs (snd (guard v)) = obs v"
    and "\<And>v. obs (sleep_for h ms v) = obs v"
  shows "obs w' = obs w"
proof -
  have "obs ((poll h ms guard ^^ n) w) = obs w" for n
    by (induction n) (simp_all add: poll_def assms(2,3))
  moreover from assms(1) obtain n where "w' = snd (guard ((poll h ms guard ^^ n) w))"
    using busy_wait_Some_D unfolding exits_at_def by blast
  ultimately show ?thesis by (simp add: assms(2))
qed

lemma poll_flag [simp]: "poll h ms (\<lambda>w. (g w, w)) = sleep_for h ms"
  by (rule ext) (simp add: poll_def)

lemma sleeps_flags:
  "m_calibrationAborted (calib ((sleep_for h ms ^^ n) w))
     = (m_calibrationAborted (calib w)
        \<or> (\<exists>m<n. CalibrationAborted \<in> set (notifications h (calls w) (clock w + m * ms) ms)))"
  "m_operationCompleted (calib ((sleep_for h ms ^^ n) w))
     = (m_operationCompleted (calib w)
        \<or> (\<exists>m<n. CalibrationComplete \<in> set (notifications h (calls w) (clock w + m * ms) ms)))"
  "m_calibrationProcessed (calib ((sleep_for h ms ^^ n) w))
     = (m_calibrationProcessed (calib w)
        \<or> (\<exists>m<n. CalibrationProcessed \<in> set (notifications h (calls w) (clock w + m * ms) ms)))"
  by (induction n; auto simp: sleep_for_flags less_Suc_eq)+

subsection \<open>Body dimensions\<close>

lemma fold_apply_dimension:
  "fold (apply_dimension L) ds w = w\<lparr> calls := calls w @ dimension_commands L ds \<rparr>"
  by (induction ds arbitrary: w) (simp_all add: apply_dimension_def dimension_commands_def issue_def)



lemma setBodyDimensions_working:
  assumes "isConnected h" "m_operationCompleted (calib w)" "ds \<noteq> []"
  shows "setBodyDimensions h ds w =
     map_option (\<lambda>w'. (m_operationCompleted (calib w'), w'))
       (wait_operation_completed h (dimensions_sent h ds w))"
  using assms
  by (simp add: setBodyDimensions_def Let_def fold_apply_dimension dimensions_sent_def issue_def
      map_option_case)

lemma wait_operation_completed_Some:
  "wait_operation_completed h w = Some w' \<longleftrightarrow>
     (\<exists>n. (\<forall>m<n. \<not> m_operationCompleted (calib ((sleep_for h 10 ^^ m) w)))
        \<and> m_operationCompleted (calib ((sleep_for h 10 ^^ n) w))
        \<and> w' = (sleep_for h 10 ^^ n) w)"
  by (simp add: wait_operation_completed_def busy_wait_Some_iff exits_at_def)

lemma wait_operation_completed_None:
  "(\<And>n. \<not> m_operationCompleted (calib ((sleep_for h 10 ^^ n) w))) \<Longrightarrow>
   wait_operation_completed h w = None"
  unfolding wait_operation_completed_def by (rule busy_wait_None) simp


lemma dimensions_sent_frame [simp]:
  "calls (dimensions_sent h ds w)
     = calls w @ [Status, BodyDimensionLabelList] @ dimension_commands (bodyDimensionLabelList h) ds"
  "clock (dimensions_sent h ds w) = clock w"
  "m_operationCompleted (calib (dimensions_sent h ds w)) = False"
  by (simp_all add: dimensions_sent_def)








text \<open>
  Claim C10. Called on a connected, idle calibrator with a map that is not empty and
  holds no label the engine knows, \<^verbatim>\<open>setBodyDimensions\<close> clears
  \<^verbatim>\<open>m_operationCompleted\<close> and sends no command: the engine has received the two
  queries only. If the engine, having received no more than these, delivers no
  completion callback while the calibrator polls, the wait loop of line 105 never ends.
\<close>

theorem setBodyDimensions_unknown_labels_hang:
  assumes "isConnected h" and "m_operationCompleted (calib w)" and "ds \<noteq> []"
    and "\<forall>pair\<in>set ds. fst pair \<notin> set (bodyDimensionLabelList h)"
    and "\<forall>n. CalibrationComplete
            \<notin> set (notifications h (calls w @ [Status, BodyDimensionLabelList]) (clock w + n * 10) 10)"
  shows "dimension_commands (bodyDimensionLabelList h) ds = []
         \<and> m_operationCompleted (calib (dimensions_sent h ds w)) = False
         \<and> calls (dimensions_sent h ds w) = calls w @ [Status, BodyDimensionLabelList]
         \<and> setBodyDimensions h ds w = None"
proof -
  let ?v = "dimensions_sent h ds w"
  have none: "dimension_commands (bodyDimensionLabelList h) ds = []"
    using assms(4) by (auto simp: dimension_commands_def filter_empty_conv)
  then have calls: "calls ?v = calls w @ [Status, BodyDimensionLabelList]" by simp
  have "\<not> m_operationCompleted (calib ((sleep_for h 10 ^^ n) ?v))" for n
    using assms(5) unfolding sleeps_flags calls by simp
  then have "wait_operation_completed h ?v = None"
    by (rule wait_operation_completed_None)
  then have "setBodyDimensions h ds w = None"
    using assms(1-3) by (simp add: setBodyDimensions_working)
  with none calls show ?thesis by simp
qed

lemma suit_fields [simp]:
  "isConnected (suit q) = True"
  "bodyDimensionLabelList (suit q) = [''ankleHeight'', ''armSpan'']"
  "bodyDimensionValueEstimate (suit q) label = (if label = ''armSpan'' then 2 else - 1)"
  "isCalibrationPerformed (suit q) cs t calibrationType = False"
  "calibrationPhaseList (suit q) = [0, 2, 4]"
  "calibrationResult (suit q) calibrationType = (q, [])"
  "notifications (suit q) cs t d = (if cs = [] then [] else answer (last cs))"
  by (simp_all add: suit_def)

lemma fresh_fields [simp]:
  "calib fresh = XSensMVNCalibrator ACCEPTABLE"
  "calls fresh = []"
  "clock fresh = 0"
  by (simp_all add: fresh_def)

lemma constructed_fields [simp]:
  "m_minimumAccaptableQuality (XSensMVNCalibrator q) = q"
  "m_achievedCalibrationQuality (XSensMVNCalibrator q) = UNKNOWN"
  "m_usedCalibrationType (XSensMVNCalibrator q) = []"
  "m_calibrationAborted (XSensMVNCalibrator q) = False"
  "m_calibrationInProgress (XSensMVNCalibrator q) = False"
  "m_calibrationProcessed (XSensMVNCalibrator q) = False"
  "m_operationCompleted (XSensMVNCalibrator q) = True"
  by (simp_all add: XSensMVNCalibrator_def)



theorem setBodyDimensions_unknown_labels_hang_witness:
  "setBodyDimensions (suit XCalQ_Good) [(''shoeSize'', 1)] fresh = None"
  using setBodyDimensions_unknown_labels_hang
    [of "suit XCalQ_Good" fresh "[(''shoeSize'', 1)]"]
  by simp

subsection \<open>One body dimension\<close>

lemma getBodyDimension_found:
  "fst (snd (getBodyDimensions h Map.empty w)) bodyName = Some v \<Longrightarrow>
   getBodyDimension h bodyName dim_io w
     = Inr (False, dim_io, snd (snd (getBodyDimensions h Map.empty w)))"
  by (simp add: getBodyDimension_def Let_def)

lemma getBodyDimension_not_found:
  "fst (snd (getBodyDimensions h Map.empty w)) bodyName = None \<Longrightarrow>
   getBodyDimension h bodyName dim_io w = Inl End_iterator_dereference"
  by (simp add: getBodyDimension_def Let_def)

text \<open>
  Claim C9. For a name that is in the map \<^verbatim>\<open>getBodyDimensions\<close> produces,
  \<^verbatim>\<open>getBodyDimension\<close> returns \<^verbatim>\<open>false\<close> and leaves \<^verbatim>\<open>dim\<close> as it was. For a
  name that is not in the map it takes the other branch, which reads
  \<^verbatim>\<open>it->second\<close> through the end iterator of the map. No call returns \<^verbatim>\<open>true\<close>
  without having dereferenced the end iterator.
\<close>

theorem getBodyDimension_inverted_test:
  "(bodyName \<in> dom (fst (snd (getBodyDimensions h Map.empty w))) \<longrightarrow>
      getBodyDimension h bodyName dim_io w
        = Inr (False, dim_io, snd (snd (getBodyDimensions h Map.empty w))))
   \<and> (bodyName \<notin> dom (fst (snd (getBodyDimensions h Map.empty w))) \<longrightarrow>
      getBodyDimension h bodyName dim_io w = Inl End_iterator_dereference)
   \<and> (\<forall>d w'. getBodyDimension h bodyName dim_io w \<noteq> Inr (True, d, w'))"
  by (auto simp: getBodyDimension_found getBodyDimension_not_found dom_def
      getBodyDimension_def Let_def split: option.splits)

lemma suit_dimensions:
  "getBodyDimensions (suit q) Map.empty fresh
     = (True, [''armSpan'' \<mapsto> 2],
        fresh\<lparr> calls := [Status, BodyDimensionLabelList,
                          BodyDimensionValueEstimate ''ankleHeight'',
                          BodyDimensionValueEstimate ''armSpan''] \<rparr>)"
  by (simp add: getBodyDimensions_def insert_dimension_def Let_def static_cast_int_def issue_def
      fresh_def)

theorem getBodyDimension_inverted_test_witness:
  "getBodyDimension (suit XCalQ_Good) ''armSpan'' 0 fresh
     = Inr (False, 0,
            fresh\<lparr> calls := [Status, BodyDimensionLabelList,
                              BodyDimensionValueEstimate ''ankleHeight'',
                              BodyDimensionValueEstimate ''armSpan''] \<rparr>)
   \<and> getBodyDimension (suit XCalQ_Good) ''ankleHeight'' 0 fresh = Inl End_iterator_dereference"
  using getBodyDimension_inverted_test [of "''armSpan''" "suit XCalQ_Good" fresh 0]
    getBodyDimension_inverted_test [of "''ankleHeight''" "suit XCalQ_Good" fresh 0]
  by (simp add: suit_dimensions)

subsection \<open>The loop over the phases\<close>

lemma wrapped_bound: "unat ((of_nat (length ([] :: int list)) :: 64 word) - 1) = 2 ^ 64 - 1"
  by (simp add: unsigned_minus_1_eq_mask mask_eq_exp_minus_1)

lemma phase_below_wrapped_bound:
  "(ucast (phase :: 32 word) :: 64 word) < of_nat (length ([] :: int list)) - 1"
proof -
  have small: "unat phase < 2 ^ 32"
    using unsigned_less [of phase, where 'a = nat] by simp
  then have "take_bit 64 (unat phase) = unat phase"
    by (intro take_bit_nat_eq_self) simp
  then have "unat (ucast phase :: 64 word) = unat phase"
    by (simp add: unsigned_ucast_eq)
  with small show ?thesis
    unfolding word_less_nat_alt wrapped_bound by simp
qed

lemma collect_phases_empty:
  "collect_phases h [] phase w = Some (Inl Index_out_of_range)"
  using phase_below_wrapped_bound [of phase]
  by (subst collect_phases.simps) simp

lemma collection_stage_empty:
  "calibrationPhaseList h = [] \<Longrightarrow>
   collection_stage h calibrationType w = Some (Inl Index_out_of_range)"
  by (simp add: collection_stage_def Let_def collect_phases_empty)

text \<open>
  Claim C8. For an empty list of phases the bound \<^verbatim>\<open>calibPhases.size() - 1\<close> of the
  loop of line 187 wraps to \<open>2 ^ 64 - 1\<close>, every \<^verbatim>\<open>unsigned int\<close> is below it, and the
  body of the loop reads \<^verbatim>\<open>calibPhases[phase]\<close> outside the list: collection is not
  skipped. So \<^verbatim>\<open>calibrateWithType\<close> faults whenever the engine gives no phases and
  the discard stage was left without an abort.
\<close>

theorem empty_phase_list_is_indexed:
  "unat ((of_nat (length ([] :: int list)) :: 64 word) - 1) = 2 ^ 64 - 1
   \<and> collect_phases h [] phase w = Some (Inl Index_out_of_range)
   \<and> (calibrationPhaseList h = [] \<longrightarrow>
        collection_stage h calibrationType w = Some (Inl Index_out_of_range))
   \<and> (calibrationPhaseList h = [] \<longrightarrow>
        (\<forall>w1. discard_stage h calibrationType w = Some (Inr (Proceed w1)) \<longrightarrow>
           calibrateWithType h calibrationType w = Some (Inl Index_out_of_range)))"
  by (simp add: unsigned_minus_1_eq_mask mask_eq_exp_minus_1 collect_phases_empty
      collection_stage_empty calibrateWithType_def acquisition_def next_stage_def)

lemma discard_stage_nothing_to_discard:
  assumes "\<not> isCalibrationPerformed h (calls w) (clock w) calibrationType"
    and "\<not> isCalibrationPerformed h (calls w @ [IsCalibrationPerformed calibrationType]) (clock w)
           calibrationType"
    and "\<not> m_calibrationAborted (calib w)"
  shows "discard_stage h calibrationType w
     = Some (Inr (Proceed
         (w\<lparr> calib := (calib w)\<lparr> m_calibrationInProgress := True \<rparr>,
             calls := calls w @ [IsCalibrationPerformed calibrationType,
                                 IsCalibrationPerformed calibrationType] \<rparr>)))"
  using assms
  by (simp add: discard_stage_def Let_def wait_discarded_def busy_wait_stop discard_guard_def
      issue_def)

theorem empty_phase_list_is_indexed_witness:
  "calibrateWithType ((suit XCalQ_Good)\<lparr> calibrationPhaseList := [] \<rparr>) ''Npose'' fresh
     = Some (Inl Index_out_of_range)"
proof -
  let ?h = "(suit XCalQ_Good)\<lparr> calibrationPhaseList := [] \<rparr>"
  have "discard_stage ?h ''Npose'' fresh
     = Some (Inr (Proceed
         (fresh\<lparr> calib := (calib fresh)\<lparr> m_calibrationInProgress := True \<rparr>,
             calls := calls fresh @ [IsCalibrationPerformed ''Npose'',
                                     IsCalibrationPerformed ''Npose''] \<rparr>)))"
    by (rule discard_stage_nothing_to_discard) (simp_all add: suit_def)
  with empty_phase_list_is_indexed
    [where h = ?h and calibrationType = "''Npose''" and w = fresh and phase = 0]
  show ?thesis
    by (simp add: suit_def)
qed

subsection \<open>The stages of the calibration routine\<close>

lemma failure_simps [simp]:
  "failure v = Exit b v' \<longleftrightarrow> \<not> b \<and> v' = v\<lparr> calib := cleanup (calib v) \<rparr>"
  "Exit b v' = failure v \<longleftrightarrow> \<not> b \<and> v' = v\<lparr> calib := cleanup (calib v) \<rparr>"
  "failure v \<noteq> Proceed v'"
  "Proceed v' \<noteq> failure v"
  by (auto simp: failure_def)

text \<open>The members no callback writes are the same after a polling loop.\<close>

lemma busy_wait_flag_frame:
  assumes "busy_wait h ms (\<lambda>w. (g w, w)) w = Some w'"
  shows "calls w' = calls w"
    and "m_minimumAccaptableQuality (calib w') = m_minimumAccaptableQuality (calib w)"
    and "m_calibrationInProgress (calib w') = m_calibrationInProgress (calib w)"
    and "\<not> g w'"
proof -
  from assms obtain n where n: "\<not> g ((sleep_for h ms ^^ n) w)" "w' = (sleep_for h ms ^^ n) w"
    using busy_wait_Some_D [OF assms] unfolding exits_at_def by auto
  from n show "calls w' = calls w"
    and "m_minimumAccaptableQuality (calib w') = m_minimumAccaptableQuality (calib w)"
    and "m_calibrationInProgress (calib w') = m_calibrationInProgress (calib w)"
    and "\<not> g w'"
    by simp_all
qed

lemma wait_discarded_frame:
  assumes "wait_discarded h calibrationType w = Some w'"
  shows "m_minimumAccaptableQuality (calib w') = m_minimumAccaptableQuality (calib w)"
    and "m_calibrationInProgress (calib w') = m_calibrationInProgress (calib w)"
proof -
  show "m_minimumAccaptableQuality (calib w') = m_minimumAccaptableQuality (calib w)"
    using assms unfolding wait_discarded_def
    by (rule busy_wait_preserves) (simp_all add: discard_guard_def)
  show "m_calibrationInProgress (calib w') = m_calibrationInProgress (calib w)"
    using assms unfolding wait_discarded_def
    by (rule busy_wait_preserves) (simp_all add: discard_guard_def)
qed

lemma discard_stage_result:
  assumes "discard_stage h calibrationType w = Some (Inr r)"
  shows "(\<exists>v. r = failure v \<and> m_calibrationAborted (calib v)
              \<and> m_minimumAccaptableQuality (calib v) = m_minimumAccaptableQuality (calib w))
       \<or> (\<exists>v. r = Proceed v \<and> \<not> m_calibrationAborted (calib v)
              \<and> m_calibrationInProgress (calib v)
              \<and> m_minimumAccaptableQuality (calib v) = m_minimumAccaptableQuality (calib w))"
proof -
  define w3 where "w3 =
    (let w1 = w\<lparr> calib := (calib w)\<lparr> m_calibrationInProgress := True \<rparr> \<rparr>;
         w2 = issue (IsCalibrationPerformed calibrationType) w1
     in if isCalibrationPerformed h (calls w1) (clock w1) calibrationType
        then issue (ClearCalibration calibrationType)
               (w2\<lparr> calib := (calib w2)\<lparr> m_usedCalibrationType := [],
                                        m_achievedCalibrationQuality := UNKNOWN,
                                        m_operationCompleted := False \<rparr> \<rparr>)
        else w2)"
  have w3: "m_calibrationInProgress (calib w3)"
    "m_minimumAccaptableQuality (calib w3) = m_minimumAccaptableQuality (calib w)"
    by (simp_all add: w3_def Let_def)
  from assms obtain v where v: "wait_discarded h calibrationType w3 = Some v"
    "r = (if m_calibrationAborted (calib v) then failure v else Proceed v)"
    by (auto simp: discard_stage_def Let_def w3_def split: option.splits if_splits)
  from wait_discarded_frame [OF v(1)] w3 v(2) show ?thesis
    by (cases "m_calibrationAborted (calib v)") auto
qed

lemma collect_frames_preserves:
  assumes "\<And>c v. obs (issue c v) = obs v" and "\<And>ms v. obs (sleep_for h ms v) = obs v"
  shows "obs (collect_frames h startingFrame endingFrame w) = obs w"
  using assms
proof (induction h startingFrame endingFrame w rule: collect_frames.induct)
  case (1 h startingFrame endingFrame w)
  show ?case
  proof (cases "startingFrame < endingFrame \<and> \<not> m_calibrationAborted (calib w)")
    case True
    then have "obs (collect_frames h startingFrame endingFrame w)
        = obs (collect_frames h (startingFrame + 1) endingFrame
                 (sleep_for h 16 (issue (CalibrationPose startingFrame) w)))"
      by (subst collect_frames.simps) simp
    also have "\<dots> = obs (sleep_for h 16 (issue (CalibrationPose startingFrame) w))"
      using True "1.prems" by (intro "1.IH") simp_all
    finally show ?thesis by (simp add: "1.prems")
  next
    case False
    show ?thesis by (subst collect_frames.simps) (simp only: False if_False)
  qed
qed

lemma collect_frames_frame [simp]:
  "m_minimumAccaptableQuality (calib (collect_frames h s e w)) = m_minimumAccaptableQuality (calib w)"
  "m_calibrationInProgress (calib (collect_frames h s e w)) = m_calibrationInProgress (calib w)"
  by (rule collect_frames_preserves; simp)+

lemma collect_phases_result:
  assumes "collect_phases h calibPhases phase w = Some (Inr r)"
  shows "(\<exists>v. r = failure v \<and> m_calibrationAborted (calib v)
              \<and> m_minimumAccaptableQuality (calib v) = m_minimumAccaptableQuality (calib w))
       \<or> (\<exists>v. r = Proceed v
              \<and> m_calibrationInProgress (calib v) = m_calibrationInProgress (calib w)
              \<and> m_minimumAccaptableQuality (calib v) = m_minimumAccaptableQuality (calib w))"
proof -
  let ?P = "\<lambda>(h :: handle) (calibPhases :: int list) (phase :: 32 word) (w :: world)
      (y :: fault + stage).
    \<forall>r. y = Inr r \<longrightarrow>
      (\<exists>v. r = failure v \<and> m_calibrationAborted (calib v)
            \<and> m_minimumAccaptableQuality (calib v) = m_minimumAccaptableQuality (calib w))
      \<or> (\<exists>v. r = Proceed v
            \<and> m_calibrationInProgress (calib v) = m_calibrationInProgress (calib w)
            \<and> m_minimumAccaptableQuality (calib v) = m_minimumAccaptableQuality (calib w))"
  have "?P h calibPhases phase w (Inr r)"
  proof (rule collect_phases.raw_induct [where P = ?P, OF _ assms])
    fix collect_phases' and h :: handle and calibPhases :: "int list" and phase :: "32 word"
      and w :: world and y :: "fault + stage"
    assume IH: "\<And>h calibPhases phase w y.
        collect_phases' h calibPhases phase w = Some y \<Longrightarrow> ?P h calibPhases phase w y"
    define c1 where "c1 \<longleftrightarrow> (ucast phase :: 64 word) < of_nat (length calibPhases) - 1"
    define c2 where "c2 \<longleftrightarrow> unat phase < length calibPhases \<and> unat (phase + 1) < length calibPhases"
    define w2 where "w2 = collect_frames h (calibPhases ! unat phase) (calibPhases ! unat (phase + 1))
        (issue (CalibrationPhaseText (sint phase)) w)"
    assume "(if (ucast phase :: 64 word) < of_nat (length calibPhases) - 1 then
        (if unat phase < length calibPhases \<and> unat (phase + 1) < length calibPhases then
           (let startingFrame = calibPhases ! unat phase;
                endingFrame = calibPhases ! unat (phase + 1);
                w1 = issue (CalibrationPhaseText (sint phase)) w;
                w2 = collect_frames h startingFrame endingFrame w1
            in if m_calibrationAborted (calib w2) then Some (Inr (failure w2))
               else collect_phases' h calibPhases (phase + 1) w2)
         else Some (Inl Index_out_of_range))
      else Some (Inr (Proceed w))) = Some y"
    then have eq: "(if c1 then
        (if c2 then
           (if m_calibrationAborted (calib w2) then Some (Inr (failure w2))
            else collect_phases' h calibPhases (phase + 1) w2)
         else Some (Inl Index_out_of_range))
      else Some (Inr (Proceed w))) = Some y"
      by (simp only: c1_def c2_def w2_def Let_def)
    show "?P h calibPhases phase w y"
    proof (cases c1)
      case False
      with eq have "y = Inr (Proceed w)" by simp
      then show ?thesis by simp
    next
      case c1: True
      show ?thesis
      proof (cases c2)
        case False
        with eq c1 have "y = Inl Index_out_of_range" by simp
        then show ?thesis by simp
      next
        case c2: True
        show ?thesis
        proof (cases "m_calibrationAborted (calib w2)")
          case True
          with eq c1 c2 have "y = Inr (failure w2)" by simp
          with True show ?thesis by (auto simp: w2_def)
        next
          case False
          with eq c1 c2 have "collect_phases' h calibPhases (phase + 1) w2 = Some y" by simp
          from IH [OF this] show ?thesis by (simp add: w2_def)
        qed
      qed
    qed
  qed
  then show ?thesis by simp
qed

lemma collection_stage_result:
  assumes "collection_stage h calibrationType w = Some (Inr r)"
  shows "(\<exists>v. r = failure v \<and> m_calibrationAborted (calib v)
              \<and> m_minimumAccaptableQuality (calib v) = m_minimumAccaptableQuality (calib w))
       \<or> (\<exists>v. r = Proceed v
              \<and> m_calibrationInProgress (calib v) = m_calibrationInProgress (calib w)
              \<and> m_minimumAccaptableQuality (calib v) = m_minimumAccaptableQuality (calib w))"
  using collect_phases_result [of h "calibrationPhaseList h" 0
      "issue StartCalibration (sleep_for h 3000 (issue CalibrationPhaseList
         (issue (InitializeCalibration calibrationType) w)))" r] assms
  by (simp add: collection_stage_def Let_def)

lemma wait_processed_frame:
  assumes "wait_processed h w = Some v"
  shows "calls v = calls w"
    and "m_minimumAccaptableQuality (calib v) = m_minimumAccaptableQuality (calib w)"
    and "m_calibrationInProgress (calib v) = m_calibrationInProgress (calib w)"
    and "m_calibrationProcessed (calib v) \<or> m_calibrationAborted (calib v)"
  using busy_wait_flag_frame [OF assms [unfolded wait_processed_def]] by auto

lemma wait_finalized_frame:
  assumes "wait_finalized h w = Some v"
  shows "calls v = calls w"
    and "m_minimumAccaptableQuality (calib v) = m_minimumAccaptableQuality (calib w)"
    and "m_calibrationInProgress (calib v) = m_calibrationInProgress (calib w)"
    and "m_operationCompleted (calib v) \<or> m_calibrationAborted (calib v)"
  using busy_wait_flag_frame [OF assms [unfolded wait_finalized_def]] by auto

lemma wait_aborted_frame:
  assumes "wait_aborted h w = Some v"
  shows "calls v = calls w"
    and "m_minimumAccaptableQuality (calib v) = m_minimumAccaptableQuality (calib w)"
    and "m_calibrationInProgress (calib v) = m_calibrationInProgress (calib w)"
    and "m_calibrationAborted (calib v)"
  using busy_wait_flag_frame [OF assms [unfolded wait_aborted_def]] by auto

lemma processing_stage_result:
  assumes "processing_stage h w = Some (Inr r)"
  shows "(\<exists>v. r = failure v \<and> m_calibrationAborted (calib v)
              \<and> m_minimumAccaptableQuality (calib v) = m_minimumAccaptableQuality (calib w))
       \<or> (\<exists>v. r = Proceed v \<and> \<not> m_calibrationAborted (calib v)
              \<and> m_calibrationProcessed (calib v)
              \<and> m_calibrationInProgress (calib v) = m_calibrationInProgress (calib w)
              \<and> m_minimumAccaptableQuality (calib v) = m_minimumAccaptableQuality (calib w))"
proof -
  define w3 where "w3 = sleep_for h 100
    ((issue StopCalibration w)\<lparr> calib := (calib (issue StopCalibration w))
                                    \<lparr> m_calibrationProcessed := False \<rparr> \<rparr>)"
  have w3: "m_calibrationInProgress (calib w3) = m_calibrationInProgress (calib w)"
    "m_minimumAccaptableQuality (calib w3) = m_minimumAccaptableQuality (calib w)"
    by (simp_all add: w3_def)
  from assms obtain v where v: "wait_processed h w3 = Some v"
    "r = (if m_calibrationAborted (calib v) then failure v else Proceed v)"
    by (auto simp: processing_stage_def Let_def w3_def split: option.splits if_splits)
  from wait_processed_frame [OF v(1)] w3 v(2) show ?thesis
    by (cases "m_calibrationAborted (calib v)") auto
qed

lemma next_stage_Some:
  "next_stage r k = Some (Inr s) \<longleftrightarrow>
     (\<exists>b v. r = Some (Inr (Exit b v)) \<and> s = Exit b v)
     \<or> (\<exists>v. r = Some (Inr (Proceed v)) \<and> k v = Some (Inr s))"
  by (auto simp: next_stage_def split: option.splits sum.splits stage.splits)

lemma acquisition_result:
  assumes "acquisition h calibrationType w = Some (Inr r)"
  shows "(\<exists>v. r = failure v \<and> m_calibrationAborted (calib v)
              \<and> m_minimumAccaptableQuality (calib v) = m_minimumAccaptableQuality (calib w))
       \<or> (\<exists>v. r = Proceed v \<and> \<not> m_calibrationAborted (calib v)
              \<and> m_calibrationProcessed (calib v)
              \<and> m_calibrationInProgress (calib v)
              \<and> m_minimumAccaptableQuality (calib v) = m_minimumAccaptableQuality (calib w))"
proof -
  from assms consider
      (early) r' where "next_stage (discard_stage h calibrationType w)
                          (collection_stage h calibrationType) = Some (Inr r')"
        "\<exists>b v. r' = Exit b v" "r = r'"
    | (late) v where "next_stage (discard_stage h calibrationType w)
                        (collection_stage h calibrationType) = Some (Inr (Proceed v))"
        "processing_stage h v = Some (Inr r)"
    unfolding acquisition_def next_stage_Some by blast
  then show ?thesis
  proof cases
    case early
    from early(1) consider
        (discard) "discard_stage h calibrationType w = Some (Inr r')"
      | (collect) v where "discard_stage h calibrationType w = Some (Inr (Proceed v))"
          "collection_stage h calibrationType v = Some (Inr r')"
      unfolding next_stage_Some by blast
    then show ?thesis
    proof cases
      case discard
      from discard_stage_result [OF this] early(2,3) show ?thesis by auto
    next
      case collect
      from discard_stage_result [OF collect(1)] collection_stage_result [OF collect(2)] early(2,3)
      show ?thesis by auto
    qed
  next
    case late
    from late(1) obtain u where u: "discard_stage h calibrationType w = Some (Inr (Proceed u))"
      "collection_stage h calibrationType u = Some (Inr (Proceed v))"
      unfolding next_stage_Some by blast
    from discard_stage_result [OF u(1)] collection_stage_result [OF u(2)]
    have "m_calibrationInProgress (calib v)"
      "m_minimumAccaptableQuality (calib v) = m_minimumAccaptableQuality (calib w)"
      by auto
    with processing_stage_result [OF late(2)] show ?thesis by auto
  qed
qed

lemma abortCalibration_frame [simp]:
  "calib (snd (abortCalibration w)) = calib w"
  "clock (snd (abortCalibration w)) = clock w"
  "calls (snd (abortCalibration w))
     = (if m_calibrationInProgress (calib w) then calls w @ [AbortCalibration] else calls w)"
  by (simp_all add: abortCalibration_def)

lemma evaluation_stage_result:
  assumes "evaluation_stage h calibrationType w = Some (Inr r)"
  shows "(\<exists>v. r = failure v \<and> m_calibrationAborted (calib v)
              \<and> m_minimumAccaptableQuality (calib v) = m_minimumAccaptableQuality (calib w)
              \<and> calls v = calls w @ CalibrationResult calibrationType #
                   (if quality_less (CalibrationQualitiesMap (fst (calibrationResult h calibrationType)))
                         (m_minimumAccaptableQuality (calib w))
                    then (if m_calibrationInProgress (calib w) then [AbortCalibration] else [])
                    else [FinalizeCalibration]))
       \<or> (\<exists>v. r = Proceed v \<and> \<not> m_calibrationAborted (calib v)
              \<and> m_operationCompleted (calib v)
              \<and> \<not> quality_less (CalibrationQualitiesMap (fst (calibrationResult h calibrationType)))
                     (m_minimumAccaptableQuality (calib w))
              \<and> m_calibrationInProgress (calib v) = m_calibrationInProgress (calib w)
              \<and> m_minimumAccaptableQuality (calib v) = m_minimumAccaptableQuality (calib w)
              \<and> calls v = calls w @ [CalibrationResult calibrationType, FinalizeCalibration])"
proof (cases "quality_less (CalibrationQualitiesMap (fst (calibrationResult h calibrationType)))
                (m_minimumAccaptableQuality (calib w))")
  case True
  with assms obtain v where v:
      "wait_aborted h (snd (abortCalibration (issue (CalibrationResult calibrationType) w))) = Some v"
      "r = failure v"
    by (auto simp: evaluation_stage_def Let_def split: option.splits)
  from wait_aborted_frame [OF v(1)] v(2) True show ?thesis by auto
next
  case False
  with assms obtain v where v:
      "wait_finalized h (issue FinalizeCalibration (issue (CalibrationResult calibrationType) w))
         = Some v"
      "r = (if m_calibrationAborted (calib v) then failure v else Proceed v)"
    by (auto simp: evaluation_stage_def Let_def split: option.splits if_splits)
  from wait_finalized_frame [OF v(1)] v(2) False show ?thesis
    by (cases "m_calibrationAborted (calib v)") auto
qed

lemma calibrateWithType_Some:
  "calibrateWithType h calibrationType w = Some (Inr (b, w')) \<longleftrightarrow>
     (\<exists>v. acquisition h calibrationType w = Some (Inr (Exit b v)) \<and> w' = v)
     \<or> (\<exists>w1. acquisition h calibrationType w = Some (Inr (Proceed w1))
           \<and> evaluation_stage h calibrationType w1 = Some (Inr (Exit b w')))
     \<or> (\<exists>w1 v. acquisition h calibrationType w = Some (Inr (Proceed w1))
           \<and> evaluation_stage h calibrationType w1 = Some (Inr (Proceed v))
           \<and> b \<and> w' = commit h calibrationType v)"
  by (auto simp: calibrateWithType_def next_stage_def split: option.splits sum.splits stage.splits)

lemma suit_acquisition:
  "acquisition (suit q) ''Npose'' fresh = Some (Inr (Proceed acquired))"
proof -
  have discard: "discard_stage (suit q) ''Npose'' fresh
     = Some (Inr (Proceed
         (fresh\<lparr> calib := (calib fresh)\<lparr> m_calibrationInProgress := True \<rparr>,
             calls := calls fresh @ [IsCalibrationPerformed ''Npose'',
                                     IsCalibrationPerformed ''Npose''] \<rparr>)))"
    by (rule discard_stage_nothing_to_discard) simp_all
  show ?thesis
    unfolding acquisition_def discard
    by (simp add: next_stage_def collection_stage_def Let_def collect_phases.simps
        collect_frames.simps processing_stage_def wait_processed_def busy_wait.simps
        sleep_for_def issue_def failure_def acquired_def fresh_def XSensMVNCalibrator_def
        onCalibrationProcessed_def)
qed




lemma commit_fields [simp]:
  "calls (commit h calibrationType v) = calls v"
  "clock (commit h calibrationType v) = clock v"
  "m_usedCalibrationType (calib (commit h calibrationType v)) = calibrationType"
  "m_achievedCalibrationQuality (calib (commit h calibrationType v))
     = CalibrationQualitiesMap (fst (calibrationResult h calibrationType))"
  "m_calibrationInProgress (calib (commit h calibrationType v)) = False"
  "m_calibrationAborted (calib (commit h calibrationType v)) = m_calibrationAborted (calib v)"
  "m_operationCompleted (calib (commit h calibrationType v)) = m_operationCompleted (calib v)"
  "m_calibrationProcessed (calib (commit h calibrationType v)) = m_calibrationProcessed (calib v)"
  "m_minimumAccaptableQuality (calib (commit h calibrationType v))
     = m_minimumAccaptableQuality (calib v)"
  by (simp_all add: commit_def)

lemma wait_aborted_Some:
  "wait_aborted h w = Some v \<longleftrightarrow>
     (\<exists>n. (\<forall>m<n. \<not> m_calibrationAborted (calib ((sleep_for h 10 ^^ m) w)))
        \<and> m_calibrationAborted (calib ((sleep_for h 10 ^^ n) w))
        \<and> v = (sleep_for h 10 ^^ n) w)"
  by (simp add: wait_aborted_def busy_wait_Some_iff exits_at_def)

lemma wait_processed_Some:
  "wait_processed h w = Some v \<longleftrightarrow>
     (\<exists>n. (\<forall>m<n. \<not> m_calibrationProcessed (calib ((sleep_for h 10 ^^ m) w))
                 \<and> \<not> m_calibrationAborted (calib ((sleep_for h 10 ^^ m) w)))
        \<and> (m_calibrationProcessed (calib ((sleep_for h 10 ^^ n) w))
            \<or> m_calibrationAborted (calib ((sleep_for h 10 ^^ n) w)))
        \<and> v = (sleep_for h 10 ^^ n) w)"
  by (simp add: wait_processed_def busy_wait_Some_iff exits_at_def)

lemma wait_finalized_Some:
  "wait_finalized h w = Some v \<longleftrightarrow>
     (\<exists>n. (\<forall>m<n. \<not> m_operationCompleted (calib ((sleep_for h 10 ^^ m) w))
                 \<and> \<not> m_calibrationAborted (calib ((sleep_for h 10 ^^ m) w)))
        \<and> (m_operationCompleted (calib ((sleep_for h 10 ^^ n) w))
            \<or> m_calibrationAborted (calib ((sleep_for h 10 ^^ n) w)))
        \<and> v = (sleep_for h 10 ^^ n) w)"
  by (simp add: wait_finalized_def busy_wait_Some_iff exits_at_def)

lemma wait_discarded_Some:
  "wait_discarded h calibrationType w = Some v \<longleftrightarrow>
     (\<exists>n. (\<forall>m<n. fst (discard_guard h calibrationType
                          ((poll h 10 (discard_guard h calibrationType) ^^ m) w)))
        \<and> \<not> fst (discard_guard h calibrationType
                     ((poll h 10 (discard_guard h calibrationType) ^^ n) w))
        \<and> v = issue (IsCalibrationPerformed calibrationType)
                 ((poll h 10 (discard_guard h calibrationType) ^^ n) w))"
proof -
  have "snd (discard_guard h calibrationType u) = issue (IsCalibrationPerformed calibrationType) u"
    for u
    by (simp add: discard_guard_def)
  then show ?thesis
    by (simp add: wait_discarded_def busy_wait_Some_iff exits_at_def)
qed



lemma wait_processed_never:
  "(\<And>n. \<not> m_calibrationProcessed (calib ((sleep_for h 10 ^^ n) w))
        \<and> \<not> m_calibrationAborted (calib ((sleep_for h 10 ^^ n) w))) \<Longrightarrow>
   wait_processed h w = None"
  unfolding wait_processed_def by (rule busy_wait_None) simp








lemma acquired_fields [simp]:
  "calls acquired = [IsCalibrationPerformed ''Npose'', IsCalibrationPerformed ''Npose'',
                InitializeCalibration ''Npose'', CalibrationPhaseList, StartCalibration,
                CalibrationPhaseText 0, CalibrationPose 0, CalibrationPose 1,
                CalibrationPhaseText 1, CalibrationPose 2, CalibrationPose 3,
                StopCalibration]"
  "clock acquired = 3164"
  "m_minimumAccaptableQuality (calib acquired) = ACCEPTABLE"
  "m_operationCompleted (calib acquired) = True"
  "m_calibrationAborted (calib acquired) = False"
  "m_calibrationInProgress (calib acquired) = True"
  by (simp_all add: acquired_def)




text \<open>The two end-to-end scenarios, run step by step.\<close>

lemma suit_accepts_good:
  "calibrateWithType (suit XCalQ_Good) ''Npose'' fresh
     = Some (Inr (True,
         acquired\<lparr> calib := (calib acquired)\<lparr> m_usedCalibrationType := ''Npose'',
                                              m_achievedCalibrationQuality := GOOD,
                                              m_calibrationInProgress := False \<rparr>,
                   calls := calls acquired @ [CalibrationResult ''Npose'', FinalizeCalibration] \<rparr>))"
  by (simp add: calibrateWithType_def suit_acquisition next_stage_def evaluation_stage_def Let_def
      quality_less_def wait_finalized_def busy_wait.simps issue_def commit_def)

lemma suit_rejects_poor:
  "calibrateWithType (suit XCalQ_Poor) ''Npose'' fresh
     = Some (Inr (False,
         \<lparr> calib = cleanup (XSensMVNCalibrator ACCEPTABLE),
           calls = calls acquired @ [CalibrationResult ''Npose'', AbortCalibration],
           clock = 3174 \<rparr>))"
  by (simp add: calibrateWithType_def suit_acquisition next_stage_def evaluation_stage_def Let_def
      quality_less_def wait_aborted_def busy_wait.simps issue_def abortCalibration_def
      sleep_for_def failure_def acquired_def cleanup_def XSensMVNCalibrator_def
      onCalibrationAborted_def)

subsection \<open>Aborts and the polling loops\<close>

lemma wait_processed_returns:
  assumes "m_calibrationProcessed (calib ((sleep_for h 10 ^^ n) w))
           \<or> m_calibrationAborted (calib ((sleep_for h 10 ^^ n) w))"
  shows "\<exists>k\<le>n. wait_processed h w = Some ((sleep_for h 10 ^^ k) w)"
  using busy_wait_returns
    [where guard = "\<lambda>w. (\<not> m_calibrationProcessed (calib w) \<and> \<not> m_calibrationAborted (calib w), w)"
      and h = h and ms = 10 and n = n and w = w] assms
  by (auto simp: wait_processed_def)

lemma wait_finalized_returns:
  assumes "m_operationCompleted (calib ((sleep_for h 10 ^^ n) w))
           \<or> m_calibrationAborted (calib ((sleep_for h 10 ^^ n) w))"
  shows "\<exists>k\<le>n. wait_finalized h w = Some ((sleep_for h 10 ^^ k) w)"
  using busy_wait_returns
    [where guard = "\<lambda>w. (\<not> m_operationCompleted (calib w) \<and> \<not> m_calibrationAborted (calib w), w)"
      and h = h and ms = 10 and n = n and w = w] assms
  by (auto simp: wait_finalized_def)

lemma wait_aborted_returns:
  assumes "m_calibrationAborted (calib ((sleep_for h 10 ^^ n) w))"
  shows "\<exists>k\<le>n. wait_aborted h w = Some ((sleep_for h 10 ^^ k) w)"
  using busy_wait_returns
    [where guard = "\<lambda>w. (\<not> m_calibrationAborted (calib w), w)"
      and h = h and ms = 10 and n = n and w = w] assms
  by (auto simp: wait_aborted_def)

lemma wait_discarded_returns:
  assumes "\<not> fst (discard_guard h calibrationType
                   ((poll h 10 (discard_guard h calibrationType) ^^ n) w))"
  shows "\<exists>k\<le>n. wait_discarded h calibrationType w
           = Some (issue (IsCalibrationPerformed calibrationType)
                     ((poll h 10 (discard_guard h calibrationType) ^^ k) w))"
proof -
  from busy_wait_returns [where guard = "discard_guard h calibrationType"
      and h = h and ms = 10 and n = n and w = w] assms
  obtain k where "k \<le> n" "busy_wait h 10 (discard_guard h calibrationType) w
      = Some (snd (discard_guard h calibrationType
                     ((poll h 10 (discard_guard h calibrationType) ^^ k) w)))"
    by blast
  then show ?thesis
    by (intro exI [of _ k]) (simp add: wait_discarded_def discard_guard_def)
qed

lemma wait_discarded_exit:
  assumes "wait_discarded h calibrationType w = Some v"
  shows "\<exists>u. v = issue (IsCalibrationPerformed calibrationType) u
           \<and> (\<not> isCalibrationPerformed h (calls u) (clock u) calibrationType
                \<or> m_calibrationAborted (calib u))"
proof -
  from busy_wait_Some_D [OF assms [unfolded wait_discarded_def]]
  obtain n where "\<not> fst (discard_guard h calibrationType
                          ((poll h 10 (discard_guard h calibrationType) ^^ n) w))"
    "v = snd (discard_guard h calibrationType
                ((poll h 10 (discard_guard h calibrationType) ^^ n) w))"
    unfolding exits_at_def by blast
  then show ?thesis
    by (intro exI [of _ "(poll h 10 (discard_guard h calibrationType) ^^ n) w"])
       (auto simp: discard_guard_def)
qed

lemma failure_cleans:
  assumes "r = failure v"
    and "m_minimumAccaptableQuality (calib v) = m_minimumAccaptableQuality (calib w)"
    and "r = Exit b v'"
  shows "\<not> b \<and> calib v' = cleanup (calib w)"
  using assms cleanup_determined [of "calib v" "calib w"] by (simp add: failure_def)

lemma discard_stage_abort:
  assumes "discard_stage h calibrationType w = Some (Inr r)"
  shows "case r of Exit b v \<Rightarrow> \<not> b \<and> calib v = cleanup (calib w)
                 | Proceed v \<Rightarrow> \<not> m_calibrationAborted (calib v)"
  using discard_stage_result [OF assms] by (auto dest: failure_cleans split: stage.splits)

lemma collection_stage_abort:
  assumes "collection_stage h calibrationType w = Some (Inr r)"
  shows "case r of Exit b v \<Rightarrow> \<not> b \<and> calib v = cleanup (calib w) | Proceed v \<Rightarrow> True"
  using collection_stage_result [OF assms] by (auto dest: failure_cleans split: stage.splits)

lemma processing_stage_abort:
  assumes "processing_stage h w = Some (Inr r)"
  shows "case r of Exit b v \<Rightarrow> \<not> b \<and> calib v = cleanup (calib w)
                 | Proceed v \<Rightarrow> \<not> m_calibrationAborted (calib v)"
  using processing_stage_result [OF assms] by (auto dest: failure_cleans split: stage.splits)

lemma evaluation_stage_abort:
  assumes "evaluation_stage h calibrationType w = Some (Inr r)"
  shows "case r of Exit b v \<Rightarrow> \<not> b \<and> calib v = cleanup (calib w)
                 | Proceed v \<Rightarrow> \<not> m_calibrationAborted (calib v)"
  using evaluation_stage_result [OF assms] by (auto dest: failure_cleans split: stage.splits)

lemma calibrateWithType_abort:
  assumes "calibrateWithType h calibrationType w = Some (Inr (b, w'))"
  shows "if b then \<not> m_calibrationAborted (calib w') else calib w' = cleanup (calib w)"
proof -
  from assms consider
      (early) "acquisition h calibrationType w = Some (Inr (Exit b w'))"
    | (late) w1 where "acquisition h calibrationType w = Some (Inr (Proceed w1))"
        "evaluation_stage h calibrationType w1 = Some (Inr (Exit b w'))"
    | (committed) w1 v where "acquisition h calibrationType w = Some (Inr (Proceed w1))"
        "evaluation_stage h calibrationType w1 = Some (Inr (Proceed v))"
        "b" "w' = commit h calibrationType v"
    unfolding calibrateWithType_Some by blast
  then show ?thesis
  proof cases
    case early
    from acquisition_result [OF this] show ?thesis by (auto dest: failure_cleans)
  next
    case late
    from acquisition_result [OF late(1)]
    have "m_minimumAccaptableQuality (calib w1) = m_minimumAccaptableQuality (calib w)"
      by auto
    then have "cleanup (calib w1) = cleanup (calib w)" by (rule cleanup_determined)
    with evaluation_stage_abort [OF late(2)] show ?thesis by simp
  next
    case committed
    from evaluation_stage_abort [OF committed(2)] committed(3,4) show ?thesis by simp
  qed
qed

lemma collect_frames_aborted:
  "m_calibrationAborted (calib w) \<Longrightarrow> collect_frames h startingFrame endingFrame w = w"
  by (subst collect_frames.simps) simp

lemma setBodyDimensions_returns_true:
  assumes "isConnected h" and "m_operationCompleted (calib w)" and "ds \<noteq> []"
    and "setBodyDimensions h ds w = Some r"
  shows "fst r"
  using assms by (auto simp: setBodyDimensions_working wait_operation_completed_Some)

lemma collect_phases_step:
  assumes "(ucast phase :: 64 word) < of_nat (length calibPhases) - 1"
    and "unat phase < length calibPhases \<and> unat (phase + 1) < length calibPhases"
  shows "collect_phases h calibPhases phase w
     = (if m_calibrationAborted
            (calib (collect_frames h (calibPhases ! unat phase) (calibPhases ! unat (phase + 1))
                      (issue (CalibrationPhaseText (sint phase)) w)))
        then Some (Inr (failure
               (collect_frames h (calibPhases ! unat phase) (calibPhases ! unat (phase + 1))
                  (issue (CalibrationPhaseText (sint phase)) w))))
        else collect_phases h calibPhases (phase + 1)
               (collect_frames h (calibPhases ! unat phase) (calibPhases ! unat (phase + 1))
                  (issue (CalibrationPhaseText (sint phase)) w)))"
  by (subst collect_phases.simps) (simp only: assms if_True Let_def simp_thms)

lemma collect_phases_done:
  assumes "\<not> (ucast phase :: 64 word) < of_nat (length calibPhases) - 1"
  shows "collect_phases h calibPhases phase w = Some (Inr (Proceed w))"
  by (subst collect_phases.simps) (simp only: assms if_False)

lemma collection_stage_unfold:
  "collection_stage h calibrationType w
     = collect_phases h (calibrationPhaseList h) 0
         (issue StartCalibration (sleep_for h 3000 (issue CalibrationPhaseList
            (issue (InitializeCalibration calibrationType) w))))"
  by (simp add: collection_stage_def Let_def)

lemma discard_stage_unfold:
  "discard_stage h calibrationType w
     = (case wait_discarded h calibrationType
               (if isCalibrationPerformed h (calls w) (clock w) calibrationType
                then issue (ClearCalibration calibrationType)
                       ((issue (IsCalibrationPerformed calibrationType) w)
                          \<lparr> calib := (calib w)\<lparr> m_calibrationInProgress := True,
                                                m_usedCalibrationType := [],
                                                m_achievedCalibrationQuality := UNKNOWN,
                                                m_operationCompleted := False \<rparr> \<rparr>)
                else (issue (IsCalibrationPerformed calibrationType) w)
                       \<lparr> calib := (calib w)\<lparr> m_calibrationInProgress := True \<rparr> \<rparr>) of
          None \<Rightarrow> None
        | Some v \<Rightarrow> Some (Inr (if m_calibrationAborted (calib v) then failure v else Proceed v)))"
proof -
  have swap: "(issue c u)\<lparr> calib := s \<rparr> = issue c (u\<lparr> calib := s \<rparr>)" for c u s
    by (simp add: issue_def)
  show ?thesis
    by (simp add: discard_stage_def Let_def swap if_distrib [of "\<lambda>x. Some (Inr x)"]
        cong: option.case_cong)
qed

lemma processing_stage_unfold:
  "processing_stage h w
     = (case wait_processed h
               (sleep_for h 100
                  ((issue StopCalibration w)
                     \<lparr> calib := (calib w)\<lparr> m_calibrationProcessed := False \<rparr> \<rparr>)) of
          None \<Rightarrow> None
        | Some v \<Rightarrow> Some (Inr (if m_calibrationAborted (calib v) then failure v else Proceed v)))"
  by (simp add: processing_stage_def Let_def if_distrib [of "\<lambda>x. Some (Inr x)"]
      cong: option.case_cong)

lemma evaluation_stage_unfold:
  "evaluation_stage h calibrationType w
     = (if quality_less (CalibrationQualitiesMap (fst (calibrationResult h calibrationType)))
             (m_minimumAccaptableQuality (calib w))
        then (case wait_aborted h
                     (snd (abortCalibration (issue (CalibrationResult calibrationType) w))) of
                None \<Rightarrow> None
              | Some v \<Rightarrow> Some (Inr (failure v)))
        else (case wait_finalized h
                     (issue FinalizeCalibration (issue (CalibrationResult calibrationType) w)) of
                None \<Rightarrow> None
              | Some v \<Rightarrow>
                  Some (Inr (if m_calibrationAborted (calib v) then failure v else Proceed v))))"
  by (simp add: evaluation_stage_def Let_def if_distrib [of "\<lambda>x. Some (Inr x)"]
      cong: option.case_cong)

lemma calibrateWithType_exits:
  "discard_stage h calibrationType w = Some (Inr (Exit b v)) \<Longrightarrow>
     calibrateWithType h calibrationType w = Some (Inr (b, v))"
  "discard_stage h calibrationType w = Some (Inr (Proceed w1)) \<Longrightarrow>
   collection_stage h calibrationType w1 = Some (Inr (Exit b v)) \<Longrightarrow>
     calibrateWithType h calibrationType w = Some (Inr (b, v))"
  "discard_stage h calibrationType w = Some (Inr (Proceed w1)) \<Longrightarrow>
   collection_stage h calibrationType w1 = Some (Inr (Proceed w2)) \<Longrightarrow>
   processing_stage h w2 = Some (Inr (Exit b v)) \<Longrightarrow>
     calibrateWithType h calibrationType w = Some (Inr (b, v))"
  "discard_stage h calibrationType w = Some (Inr (Proceed w1)) \<Longrightarrow>
   collection_stage h calibrationType w1 = Some (Inr (Proceed w2)) \<Longrightarrow>
   processing_stage h w2 = Some (Inr (Proceed w3)) \<Longrightarrow>
   evaluation_stage h calibrationType w3 = Some (Inr (Exit b v)) \<Longrightarrow>
     calibrateWithType h calibrationType w = Some (Inr (b, v))"
  by (simp_all add: calibrateWithType_def acquisition_def next_stage_def)

lemma abandoning_discard:
  "discard_stage abandoning ''Npose'' fresh
     = Some (Inr (Proceed
         (fresh\<lparr> calib := (calib fresh)\<lparr> m_calibrationInProgress := True \<rparr>,
             calls := calls fresh @ [IsCalibrationPerformed ''Npose'',
                                     IsCalibrationPerformed ''Npose''] \<rparr>)))"
  by (rule discard_stage_nothing_to_discard) (simp_all add: abandoning_def)

lemma abandoning_collection:
  "collection_stage abandoning ''Npose''
     (fresh\<lparr> calib := (calib fresh)\<lparr> m_calibrationInProgress := True \<rparr>,
           calls := calls fresh @ [IsCalibrationPerformed ''Npose'',
                                   IsCalibrationPerformed ''Npose''] \<rparr>)
     = Some (Inr (Exit False
         \<lparr> calib = cleanup (XSensMVNCalibrator ACCEPTABLE),
           calls = [IsCalibrationPerformed ''Npose'', IsCalibrationPerformed ''Npose'',
                    InitializeCalibration ''Npose'', CalibrationPhaseList, StartCalibration,
                    CalibrationPhaseText 0, CalibrationPose 0, CalibrationPose 1],
           clock = 3032 \<rparr>))"
  by (simp add: collection_stage_def Let_def collect_phases.simps collect_frames.simps
      sleep_for_def issue_def failure_def fresh_def XSensMVNCalibrator_def cleanup_def
      onCalibrationAborted_def abandoning_def)

text \<open>
  Claim C2 as stated covers every polling loop of the component. The loop of
  \<^verbatim>\<open>setBodyDimensions\<close> (line 105) tests \<^verbatim>\<open>m_operationCompleted\<close> only. Here the
  abort callback comes during the first sleep and the completion callback during the
  third: the loop is still running after the abort flag has gone up, it is left after
  thirty milliseconds, and \<^verbatim>\<open>setBodyDimensions\<close> returns \<^verbatim>\<open>true\<close> with the abort
  flag up and without \<^verbatim>\<open>cleanup\<close>.
\<close>

theorem setBodyDimensions_ignores_abort_counterexample:
  "setBodyDimensions interrupting [(''armSpan'', 2)] fresh
     = Some (True,
         \<lparr> calib = (XSensMVNCalibrator ACCEPTABLE)\<lparr> m_calibrationAborted := True \<rparr>,
           calls = [Status, BodyDimensionLabelList, SetBodyDimension ''armSpan'' 2],
           clock = 30 \<rparr>)
   \<and> m_calibrationAborted
       (calib (sleep_for interrupting 10 (dimensions_sent interrupting [(''armSpan'', 2)] fresh)))"
  by (simp add: setBodyDimensions_def Let_def issue_def apply_dimension_def interrupting_def
      wait_operation_completed_def busy_wait.simps sleep_for_def dimensions_sent_def
      dimension_commands_def fresh_def XSensMVNCalibrator_def onCalibrationAborted_def
      onCalibrationComplete_def)

text \<open>
  Claim C2, as amended. In \<^verbatim>\<open>calibrateWithType\<close>:
  \<^item> the wait for processing (line 218) and the wait for finalization (line 273) are left
    at the first poll that finds their own flag or the abort flag up, the wait after a
    rejection (line 261) at the first poll that finds the abort flag up, and the wait for
    the discard (line 167) at the first poll where the engine no longer holds the
    calibration or the abort flag is up; the loop over the frames of a phase (line 192)
    does not run with the abort flag up;
  \<^item> a stage that is left with the abort flag up runs \<^verbatim>\<open>cleanup\<close> and returns
    \<^verbatim>\<open>false\<close>: the discard, processing and evaluation stages go on to the next stage
    only with the abort flag down, and every \<^verbatim>\<open>return\<close> inside a stage returns
    \<^verbatim>\<open>false\<close> from a cleaned state; so \<^verbatim>\<open>calibrateWithType\<close> returns \<^verbatim>\<open>true\<close>
    only with the abort flag down, and \<^verbatim>\<open>false\<close> only from a cleaned state.

  The loop of \<^verbatim>\<open>setBodyDimensions\<close> (line 105) is left at the first poll that finds
  \<^verbatim>\<open>m_operationCompleted\<close> up, whatever the abort flag is, and
  \<^verbatim>\<open>setBodyDimensions\<close> then returns \<^verbatim>\<open>true\<close>.

  The second half of the statement makes this exact. Each of the four waits returns a
  world if and only if that world is the one of the first poll at which its test fails:
  it sleeps through every earlier poll and through no later one. The loop over the frames
  asks for one pose and sleeps sixteen milliseconds for each frame while the abort flag
  is down, and is left at the first frame that finds it up. A phase whose frame loop is
  left with the abort flag up ends the routine there, by \<^verbatim>\<open>cleanup\<close> and
  \<^verbatim>\<open>false\<close>, before the next phase and before the stop command; otherwise the next
  phase follows, and after the last one the stop command. Each stage ends by the failure path exactly when its wait is left with
  the abort flag up and goes on exactly when it is left with the flag down, and an exit
  from any stage is the result of \<^verbatim>\<open>calibrateWithType\<close>.
\<close>

theorem calibration_waits_yield_to_abort:
  "(\<forall>n. m_calibrationProcessed (calib ((sleep_for h 10 ^^ n) w))
          \<or> m_calibrationAborted (calib ((sleep_for h 10 ^^ n) w)) \<longrightarrow>
        (\<exists>k\<le>n. wait_processed h w = Some ((sleep_for h 10 ^^ k) w)))
   \<and> (\<forall>n. m_operationCompleted (calib ((sleep_for h 10 ^^ n) w))
          \<or> m_calibrationAborted (calib ((sleep_for h 10 ^^ n) w)) \<longrightarrow>
        (\<exists>k\<le>n. wait_finalized h w = Some ((sleep_for h 10 ^^ k) w)))
   \<and> (\<forall>n. m_calibrationAborted (calib ((sleep_for h 10 ^^ n) w)) \<longrightarrow>
        (\<exists>k\<le>n. wait_aborted h w = Some ((sleep_for h 10 ^^ k) w)))
   \<and> (\<forall>n. \<not> fst (discard_guard h calibrationType
                     ((poll h 10 (discard_guard h calibrationType) ^^ n) w)) \<longrightarrow>
        (\<exists>k\<le>n. wait_discarded h calibrationType w
           = Some (issue (IsCalibrationPerformed calibrationType)
                     ((poll h 10 (discard_guard h calibrationType) ^^ k) w))))
   \<and> fst (discard_guard h calibrationType w)
       = (isCalibrationPerformed h (calls w) (clock w) calibrationType
          \<and> \<not> m_calibrationAborted (calib w))
   \<and> (m_calibrationAborted (calib w) \<longrightarrow> collect_frames h startingFrame endingFrame w = w)
   \<and> (\<forall>r. discard_stage h calibrationType w = Some (Inr r) \<longrightarrow>
        (case r of Exit b v \<Rightarrow> \<not> b \<and> calib v = cleanup (calib w)
                 | Proceed v \<Rightarrow> \<not> m_calibrationAborted (calib v)))
   \<and> (\<forall>b v. collection_stage h calibrationType w = Some (Inr (Exit b v)) \<longrightarrow>
        \<not> b \<and> calib v = cleanup (calib w))
   \<and> (\<forall>r. processing_stage h w = Some (Inr r) \<longrightarrow>
        (case r of Exit b v \<Rightarrow> \<not> b \<and> calib v = cleanup (calib w)
                 | Proceed v \<Rightarrow> \<not> m_calibrationAborted (calib v)))
   \<and> (\<forall>r. evaluation_stage h calibrationType w = Some (Inr r) \<longrightarrow>
        (case r of Exit b v \<Rightarrow> \<not> b \<and> calib v = cleanup (calib w)
                 | Proceed v \<Rightarrow> \<not> m_calibrationAborted (calib v)))
   \<and> (\<forall>b w'. calibrateWithType h calibrationType w = Some (Inr (b, w')) \<longrightarrow>
        (if b then \<not> m_calibrationAborted (calib w') else calib w' = cleanup (calib w)))
   \<and> (\<forall>v. wait_operation_completed h w = Some v \<longleftrightarrow>
        (\<exists>n. (\<forall>m<n. \<not> m_operationCompleted (calib ((sleep_for h 10 ^^ m) w)))
           \<and> m_operationCompleted (calib ((sleep_for h 10 ^^ n) w))
           \<and> v = (sleep_for h 10 ^^ n) w))
   \<and> (isConnected h \<and> m_operationCompleted (calib w) \<and> bodyDimensions \<noteq> [] \<longrightarrow>
        (\<forall>r. setBodyDimensions h bodyDimensions w = Some r \<longrightarrow> fst r))
   \<and> (\<forall>v. wait_processed h w = Some v \<longleftrightarrow>
        (\<exists>n. (\<forall>m<n. \<not> m_calibrationProcessed (calib ((sleep_for h 10 ^^ m) w))
                    \<and> \<not> m_calibrationAborted (calib ((sleep_for h 10 ^^ m) w)))
           \<and> (m_calibrationProcessed (calib ((sleep_for h 10 ^^ n) w))
               \<or> m_calibrationAborted (calib ((sleep_for h 10 ^^ n) w)))
           \<and> v = (sleep_for h 10 ^^ n) w))
   \<and> (\<forall>v. wait_finalized h w = Some v \<longleftrightarrow>
        (\<exists>n. (\<forall>m<n. \<not> m_operationCompleted (calib ((sleep_for h 10 ^^ m) w))
                    \<and> \<not> m_calibrationAborted (calib ((sleep_for h 10 ^^ m) w)))
           \<and> (m_operationCompleted (calib ((sleep_for h 10 ^^ n) w))
               \<or> m_calibrationAborted (calib ((sleep_for h 10 ^^ n) w)))
           \<and> v = (sleep_for h 10 ^^ n) w))
   \<and> (\<forall>v. wait_aborted h w = Some v \<longleftrightarrow>
        (\<exists>n. (\<forall>m<n. \<not> m_calibrationAborted (calib ((sleep_for h 10 ^^ m) w)))
           \<and> m_calibrationAborted (calib ((sleep_for h 10 ^^ n) w))
           \<and> v = (sleep_for h 10 ^^ n) w))
   \<and> (\<forall>v. wait_discarded h calibrationType w = Some v \<longleftrightarrow>
        (\<exists>n. (\<forall>m<n. fst (discard_guard h calibrationType
                             ((poll h 10 (discard_guard h calibrationType) ^^ m) w)))
           \<and> \<not> fst (discard_guard h calibrationType
                        ((poll h 10 (discard_guard h calibrationType) ^^ n) w))
           \<and> v = issue (IsCalibrationPerformed calibrationType)
                    ((poll h 10 (discard_guard h calibrationType) ^^ n) w)))
   \<and> collect_frames h startingFrame endingFrame w
       = (if startingFrame < endingFrame \<and> \<not> m_calibrationAborted (calib w)
          then collect_frames h (startingFrame + 1) endingFrame
                 (sleep_for h 16 (issue (CalibrationPose startingFrame) w))
          else w)
   \<and> ((ucast phase :: 64 word) < of_nat (length calibPhases) - 1
        \<and> unat phase < length calibPhases \<and> unat (phase + 1) < length calibPhases \<longrightarrow>
      collect_phases h calibPhases phase w
        = (if m_calibrationAborted
               (calib (collect_frames h (calibPhases ! unat phase) (calibPhases ! unat (phase + 1))
                         (issue (CalibrationPhaseText (sint phase)) w)))
           then Some (Inr (failure
                  (collect_frames h (calibPhases ! unat phase) (calibPhases ! unat (phase + 1))
                     (issue (CalibrationPhaseText (sint phase)) w))))
           else collect_phases h calibPhases (phase + 1)
                  (collect_frames h (calibPhases ! unat phase) (calibPhases ! unat (phase + 1))
                     (issue (CalibrationPhaseText (sint phase)) w))))
   \<and> collection_stage h calibrationType w
       = collect_phases h (calibrationPhaseList h) 0
           (issue StartCalibration (sleep_for h 3000 (issue CalibrationPhaseList
              (issue (InitializeCalibration calibrationType) w))))
   \<and> discard_stage h calibrationType w
       = (case wait_discarded h calibrationType
                 (if isCalibrationPerformed h (calls w) (clock w) calibrationType
                  then issue (ClearCalibration calibrationType)
                         ((issue (IsCalibrationPerformed calibrationType) w)
                            \<lparr> calib := (calib w)\<lparr> m_calibrationInProgress := True,
                                                  m_usedCalibrationType := [],
                                                  m_achievedCalibrationQuality := UNKNOWN,
                                                  m_operationCompleted := False \<rparr> \<rparr>)
                  else (issue (IsCalibrationPerformed calibrationType) w)
                         \<lparr> calib := (calib w)\<lparr> m_calibrationInProgress := True \<rparr> \<rparr>) of
            None \<Rightarrow> None
          | Some v \<Rightarrow> Some (Inr (if m_calibrationAborted (calib v) then failure v else Proceed v)))
   \<and> processing_stage h w
       = (case wait_processed h
                 (sleep_for h 100
                    ((issue StopCalibration w)
                       \<lparr> calib := (calib w)\<lparr> m_calibrationProcessed := False \<rparr> \<rparr>)) of
            None \<Rightarrow> None
          | Some v \<Rightarrow> Some (Inr (if m_calibrationAborted (calib v) then failure v else Proceed v)))
   \<and> evaluation_stage h calibrationType w
       = (if quality_less (CalibrationQualitiesMap (fst (calibrationResult h calibrationType)))
               (m_minimumAccaptableQuality (calib w))
          then (case wait_aborted h
                       (snd (abortCalibration (issue (CalibrationResult calibrationType) w))) of
                  None \<Rightarrow> None
                | Some v \<Rightarrow> Some (Inr (failure v)))
          else (case wait_finalized h
                       (issue FinalizeCalibration (issue (CalibrationResult calibrationType) w)) of
                  None \<Rightarrow> None
                | Some v \<Rightarrow>
                    Some (Inr (if m_calibrationAborted (calib v) then failure v else Proceed v))))
   \<and> (\<forall>b v. discard_stage h calibrationType w = Some (Inr (Exit b v)) \<longrightarrow>
        calibrateWithType h calibrationType w = Some (Inr (b, v)))
   \<and> (\<forall>w1 b v. discard_stage h calibrationType w = Some (Inr (Proceed w1))
          \<and> collection_stage h calibrationType w1 = Some (Inr (Exit b v)) \<longrightarrow>
        calibrateWithType h calibrationType w = Some (Inr (b, v)))
   \<and> (\<forall>w1 w2 b v. discard_stage h calibrationType w = Some (Inr (Proceed w1))
          \<and> collection_stage h calibrationType w1 = Some (Inr (Proceed w2))
          \<and> processing_stage h w2 = Some (Inr (Exit b v)) \<longrightarrow>
        calibrateWithType h calibrationType w = Some (Inr (b, v)))
   \<and> (\<forall>w1 w2 w3 b v. discard_stage h calibrationType w = Some (Inr (Proceed w1))
          \<and> collection_stage h calibrationType w1 = Some (Inr (Proceed w2))
          \<and> processing_stage h w2 = Some (Inr (Proceed w3))
          \<and> evaluation_stage h calibrationType w3 = Some (Inr (Exit b v)) \<longrightarrow>
        calibrateWithType h calibrationType w = Some (Inr (b, v)))
   \<and> failure w = Exit False (w\<lparr> calib := cleanup (calib w) \<rparr>)
   \<and> (\<not> (ucast phase :: 64 word) < of_nat (length calibPhases) - 1 \<longrightarrow>
        collect_phases h calibPhases phase w = Some (Inr (Proceed w)))"
proof (intro conjI allI impI)
  fix n
  assume "m_calibrationProcessed (calib ((sleep_for h 10 ^^ n) w))
          \<or> m_calibrationAborted (calib ((sleep_for h 10 ^^ n) w))"
  then show "\<exists>k\<le>n. wait_processed h w = Some ((sleep_for h 10 ^^ k) w)"
    by (rule wait_processed_returns)
next
  fix n
  assume "m_operationCompleted (calib ((sleep_for h 10 ^^ n) w))
          \<or> m_calibrationAborted (calib ((sleep_for h 10 ^^ n) w))"
  then show "\<exists>k\<le>n. wait_finalized h w = Some ((sleep_for h 10 ^^ k) w)"
    by (rule wait_finalized_returns)
next
  fix n
  assume "m_calibrationAborted (calib ((sleep_for h 10 ^^ n) w))"
  then show "\<exists>k\<le>n. wait_aborted h w = Some ((sleep_for h 10 ^^ k) w)"
    by (rule wait_aborted_returns)
next
  fix n
  assume "\<not> fst (discard_guard h calibrationType
                     ((poll h 10 (discard_guard h calibrationType) ^^ n) w))"
  then show "\<exists>k\<le>n. wait_discarded h calibrationType w
           = Some (issue (IsCalibrationPerformed calibrationType)
                     ((poll h 10 (discard_guard h calibrationType) ^^ k) w))"
    by (rule wait_discarded_returns)
next
  show "fst (discard_guard h calibrationType w)
       = (isCalibrationPerformed h (calls w) (clock w) calibrationType
          \<and> \<not> m_calibrationAborted (calib w))"
    by (simp add: discard_guard_def)
next
  assume "m_calibrationAborted (calib w)"
  then show "collect_frames h startingFrame endingFrame w = w"
    by (rule collect_frames_aborted)
next
  fix r
  assume "discard_stage h calibrationType w = Some (Inr r)"
  then show "case r of Exit b v \<Rightarrow> \<not> b \<and> calib v = cleanup (calib w)
                 | Proceed v \<Rightarrow> \<not> m_calibrationAborted (calib v)"
    by (rule discard_stage_abort)
next
  fix b v
  assume run: "collection_stage h calibrationType w = Some (Inr (Exit b v))"
  from collection_stage_abort [OF run] show "\<not> b" and "calib v = cleanup (calib w)"
    by simp_all
next
  fix r
  assume "processing_stage h w = Some (Inr r)"
  then show "case r of Exit b v \<Rightarrow> \<not> b \<and> calib v = cleanup (calib w)
                 | Proceed v \<Rightarrow> \<not> m_calibrationAborted (calib v)"
    by (rule processing_stage_abort)
next
  fix r
  assume "evaluation_stage h calibrationType w = Some (Inr r)"
  then show "case r of Exit b v \<Rightarrow> \<not> b \<and> calib v = cleanup (calib w)
                 | Proceed v \<Rightarrow> \<not> m_calibrationAborted (calib v)"
    by (rule evaluation_stage_abort)
next
  fix b w'
  assume "calibrateWithType h calibrationType w = Some (Inr (b, w'))"
  then show "if b then \<not> m_calibrationAborted (calib w') else calib w' = cleanup (calib w)"
    by (rule calibrateWithType_abort)
next
  fix v
  show "wait_operation_completed h w = Some v \<longleftrightarrow>
        (\<exists>n. (\<forall>m<n. \<not> m_operationCompleted (calib ((sleep_for h 10 ^^ m) w)))
           \<and> m_operationCompleted (calib ((sleep_for h 10 ^^ n) w))
           \<and> v = (sleep_for h 10 ^^ n) w)"
    by (rule wait_operation_completed_Some)
next
  fix r
  assume "isConnected h \<and> m_operationCompleted (calib w) \<and> bodyDimensions \<noteq> []"
    and "setBodyDimensions h bodyDimensions w = Some r"
  then show "fst r"
    using setBodyDimensions_returns_true [of h w bodyDimensions r] by blast
next
  fix v
  show "wait_processed h w = Some v \<longleftrightarrow>
        (\<exists>n. (\<forall>m<n. \<not> m_calibrationProcessed (calib ((sleep_for h 10 ^^ m) w))
                    \<and> \<not> m_calibrationAborted (calib ((sleep_for h 10 ^^ m) w)))
           \<and> (m_calibrationProcessed (calib ((sleep_for h 10 ^^ n) w))
               \<or> m_calibrationAborted (calib ((sleep_for h 10 ^^ n) w)))
           \<and> v = (sleep_for h 10 ^^ n) w)"
    by (rule wait_processed_Some)
next
  fix v
  show "wait_finalized h w = Some v \<longleftrightarrow>
        (\<exists>n. (\<forall>m<n. \<not> m_operationCompleted (calib ((sleep_for h 10 ^^ m) w))
                    \<and> \<not> m_calibrationAborted (calib ((sleep_for h 10 ^^ m) w)))
           \<and> (m_operationCompleted (calib ((sleep_for h 10 ^^ n) w))
               \<or> m_calibrationAborted (calib ((sleep_for h 10 ^^ n) w)))
           \<and> v = (sleep_for h 10 ^^ n) w)"
    by (rule wait_finalized_Some)
next
  fix v
  show "wait_aborted h w = Some v \<longleftrightarrow>
        (\<exists>n. (\<forall>m<n. \<not> m_calibrationAborted (calib ((sleep_for h 10 ^^ m) w)))
           \<and> m_calibrationAborted (calib ((sleep_for h 10 ^^ n) w))
           \<and> v = (sleep_for h 10 ^^ n) w)"
    by (rule wait_aborted_Some)
next
  fix v
  show "wait_discarded h calibrationType w = Some v \<longleftrightarrow>
        (\<exists>n. (\<forall>m<n. fst (discard_guard h calibrationType
                             ((poll h 10 (discard_guard h calibrationType) ^^ m) w)))
           \<and> \<not> fst (discard_guard h calibrationType
                        ((poll h 10 (discard_guard h calibrationType) ^^ n) w))
           \<and> v = issue (IsCalibrationPerformed calibrationType)
                    ((poll h 10 (discard_guard h calibrationType) ^^ n) w))"
    by (rule wait_discarded_Some)
next
  show "collect_frames h startingFrame endingFrame w
       = (if startingFrame < endingFrame \<and> \<not> m_calibrationAborted (calib w)
          then collect_frames h (startingFrame + 1) endingFrame
                 (sleep_for h 16 (issue (CalibrationPose startingFrame) w))
          else w)"
    by (rule collect_frames.simps)
next
  assume "(ucast phase :: 64 word) < of_nat (length calibPhases) - 1
        \<and> unat phase < length calibPhases \<and> unat (phase + 1) < length calibPhases"
  then have "(ucast phase :: 64 word) < of_nat (length calibPhases) - 1"
    and "unat phase < length calibPhases \<and> unat (phase + 1) < length calibPhases"
    by blast+
  then show "collect_phases h calibPhases phase w
        = (if m_calibrationAborted
               (calib (collect_frames h (calibPhases ! unat phase) (calibPhases ! unat (phase + 1))
                         (issue (CalibrationPhaseText (sint phase)) w)))
           then Some (Inr (failure
                  (collect_frames h (calibPhases ! unat phase) (calibPhases ! unat (phase + 1))
                     (issue (CalibrationPhaseText (sint phase)) w))))
           else collect_phases h calibPhases (phase + 1)
                  (collect_frames h (calibPhases ! unat phase) (calibPhases ! unat (phase + 1))
                     (issue (CalibrationPhaseText (sint phase)) w)))"
    by (rule collect_phases_step)
next
  show "collection_stage h calibrationType w
       = collect_phases h (calibrationPhaseList h) 0
           (issue StartCalibration (sleep_for h 3000 (issue CalibrationPhaseList
              (issue (InitializeCalibration calibrationType) w))))"
    by (rule collection_stage_unfold)
next
  show "discard_stage h calibrationType w
       = (case wait_discarded h calibrationType
                 (if isCalibrationPerformed h (calls w) (clock w) calibrationType
                  then issue (ClearCalibration calibrationType)
                         ((issue (IsCalibrationPerformed calibrationType) w)
                            \<lparr> calib := (calib w)\<lparr> m_calibrationInProgress := True,
                                                  m_usedCalibrationType := [],
                                                  m_achievedCalibrationQuality := UNKNOWN,
                                                  m_operationCompleted := False \<rparr> \<rparr>)
                  else (issue (IsCalibrationPerformed calibrationType) w)
                         \<lparr> calib := (calib w)\<lparr> m_calibrationInProgress := True \<rparr> \<rparr>) of
            None \<Rightarrow> None
          | Some v \<Rightarrow> Some (Inr (if m_calibrationAborted (calib v) then failure v else Proceed v)))"
    by (rule discard_stage_unfold)
next
  show "processing_stage h w
       = (case wait_processed h
                 (sleep_for h 100
                    ((issue StopCalibration w)
                       \<lparr> calib := (calib w)\<lparr> m_calibrationProcessed := False \<rparr> \<rparr>)) of
            None \<Rightarrow> None
          | Some v \<Rightarrow> Some (Inr (if m_calibrationAborted (calib v) then failure v else Proceed v)))"
    by (rule processing_stage_unfold)
next
  show "evaluation_stage h calibrationType w
       = (if quality_less (CalibrationQualitiesMap (fst (calibrationResult h calibrationType)))
               (m_minimumAccaptableQuality (calib w))
          then (case wait_aborted h
                       (snd (abortCalibration (issue (CalibrationResult calibrationType) w))) of
                  None \<Rightarrow> None
                | Some v \<Rightarrow> Some (Inr (failure v)))
          else (case wait_finalized h
                       (issue FinalizeCalibration (issue (CalibrationResult calibrationType) w)) of
                  None \<Rightarrow> None
                | Some v \<Rightarrow>
                    Some (Inr (if m_calibrationAborted (calib v) then failure v else Proceed v))))"
    by (rule evaluation_stage_unfold)
next
  fix b v
  assume "discard_stage h calibrationType w = Some (Inr (Exit b v))"
  then show "calibrateWithType h calibrationType w = Some (Inr (b, v))"
    by (rule calibrateWithType_exits(1))
next
  fix w1 b v
  assume "discard_stage h calibrationType w = Some (Inr (Proceed w1))
          \<and> collection_stage h calibrationType w1 = Some (Inr (Exit b v))"
  then show "calibrateWithType h calibrationType w = Some (Inr (b, v))"
    using calibrateWithType_exits(2) [of h calibrationType w w1 b v] by blast
next
  fix w1 w2 b v
  assume "discard_stage h calibrationType w = Some (Inr (Proceed w1))
          \<and> collection_stage h calibrationType w1 = Some (Inr (Proceed w2))
          \<and> processing_stage h w2 = Some (Inr (Exit b v))"
  then show "calibrateWithType h calibrationType w = Some (Inr (b, v))"
    using calibrateWithType_exits(3) [of h calibrationType w w1 w2 b v] by blast
next
  fix w1 w2 w3 b v
  assume "discard_stage h calibrationType w = Some (Inr (Proceed w1))
          \<and> collection_stage h calibrationType w1 = Some (Inr (Proceed w2))
          \<and> processing_stage h w2 = Some (Inr (Proceed w3))
          \<and> evaluation_stage h calibrationType w3 = Some (Inr (Exit b v))"
  then show "calibrateWithType h calibrationType w = Some (Inr (b, v))"
    using calibrateWithType_exits(4) [of h calibrationType w w1 w2 w3 b v] by blast
next
  show "failure w = Exit False (w\<lparr> calib := cleanup (calib w) \<rparr>)"
    by (rule failure_def)
next
  assume "\<not> (ucast phase :: 64 word) < of_nat (length calibPhases) - 1"
  then show "collect_phases h calibPhases phase w = Some (Inr (Proceed w))"
    by (rule collect_phases_done)
qed

theorem calibration_waits_yield_to_abort_witness:
  "(\<exists>k\<le>1. wait_aborted (suit XCalQ_Poor)
              (issue AbortCalibration (issue (CalibrationResult ''Npose'') acquired))
            = Some ((sleep_for (suit XCalQ_Poor) 10 ^^ k)
                      (issue AbortCalibration (issue (CalibrationResult ''Npose'') acquired))))
   \<and> calib (snd (projr (the (calibrateWithType (suit XCalQ_Poor) ''Npose'' fresh))))
       = cleanup (calib fresh)
   \<and> m_calibrationAborted
       (calib (snd (projr (the (calibrateWithType (suit XCalQ_Good) ''Npose'' fresh))))) = False
   \<and> wait_aborted (suit XCalQ_Poor)
              (issue AbortCalibration (issue (CalibrationResult ''Npose'') acquired))
       = Some ((sleep_for (suit XCalQ_Poor) 10 ^^ 1)
                 (issue AbortCalibration (issue (CalibrationResult ''Npose'') acquired)))
   \<and> calibrateWithType abandoning ''Npose'' fresh
       = Some (Inr (False,
           \<lparr> calib = cleanup (XSensMVNCalibrator ACCEPTABLE),
             calls = [IsCalibrationPerformed ''Npose'', IsCalibrationPerformed ''Npose'',
                      InitializeCalibration ''Npose'', CalibrationPhaseList, StartCalibration,
                      CalibrationPhaseText 0, CalibrationPose 0, CalibrationPose 1],
             clock = 3032 \<rparr>))"
proof (intro conjI)
  note waits = calibration_waits_yield_to_abort
  let ?wa = "issue AbortCalibration (issue (CalibrationResult ''Npose'') acquired)"
  note at_wa = waits [where h = "suit XCalQ_Poor" and w = ?wa and calibrationType = "''Npose''"
        and startingFrame = 0 and endingFrame = 0 and bodyDimensions = "[]"
        and phase = 0 and calibPhases = "[]"]
  have upper: "\<forall>n. m_calibrationAborted (calib ((sleep_for (suit XCalQ_Poor) 10 ^^ n) ?wa)) \<longrightarrow>
        (\<exists>k\<le>n. wait_aborted (suit XCalQ_Poor) ?wa
                  = Some ((sleep_for (suit XCalQ_Poor) 10 ^^ k) ?wa))"
    using at_wa by - (elim conjE, assumption)
  have aborted: "m_calibrationAborted (calib ((sleep_for (suit XCalQ_Poor) 10 ^^ 1) ?wa))"
    by (simp add: sleep_for_flags)
  from upper aborted show "\<exists>k\<le>1. wait_aborted (suit XCalQ_Poor) ?wa
                  = Some ((sleep_for (suit XCalQ_Poor) 10 ^^ k) ?wa)"
    by blast
  have "\<forall>b w'. calibrateWithType (suit XCalQ_Poor) ''Npose'' fresh = Some (Inr (b, w')) \<longrightarrow>
        (if b then \<not> m_calibrationAborted (calib w') else calib w' = cleanup (calib fresh))"
    using waits [where h = "suit XCalQ_Poor" and w = fresh and calibrationType = "''Npose''"
        and startingFrame = 0 and endingFrame = 0 and bodyDimensions = "[]"
        and phase = 0 and calibPhases = "[]"]
    by - (elim conjE, assumption)
  with suit_rejects_poor
  show "calib (snd (projr (the (calibrateWithType (suit XCalQ_Poor) ''Npose'' fresh))))
       = cleanup (calib fresh)"
    by simp
  have "\<forall>b w'. calibrateWithType (suit XCalQ_Good) ''Npose'' fresh = Some (Inr (b, w')) \<longrightarrow>
        (if b then \<not> m_calibrationAborted (calib w') else calib w' = cleanup (calib fresh))"
    using waits [where h = "suit XCalQ_Good" and w = fresh and calibrationType = "''Npose''"
        and startingFrame = 0 and endingFrame = 0 and bodyDimensions = "[]"
        and phase = 0 and calibPhases = "[]"]
    by - (elim conjE, assumption)
  with suit_accepts_good
  show "m_calibrationAborted
       (calib (snd (projr (the (calibrateWithType (suit XCalQ_Good) ''Npose'' fresh))))) = False"
    by simp
  have exact: "\<forall>v. wait_aborted (suit XCalQ_Poor) ?wa = Some v \<longleftrightarrow>
        (\<exists>n. (\<forall>m<n. \<not> m_calibrationAborted (calib ((sleep_for (suit XCalQ_Poor) 10 ^^ m) ?wa)))
           \<and> m_calibrationAborted (calib ((sleep_for (suit XCalQ_Poor) 10 ^^ n) ?wa))
           \<and> v = (sleep_for (suit XCalQ_Poor) 10 ^^ n) ?wa)"
    using at_wa by - (elim conjE, assumption)
  have "\<forall>m<1. \<not> m_calibrationAborted (calib ((sleep_for (suit XCalQ_Poor) 10 ^^ m) ?wa))"
    by simp
  with exact aborted
  show "wait_aborted (suit XCalQ_Poor) ?wa = Some ((sleep_for (suit XCalQ_Poor) 10 ^^ 1) ?wa)"
    by blast
  have "\<forall>w1 b v. discard_stage abandoning ''Npose'' fresh = Some (Inr (Proceed w1))
          \<and> collection_stage abandoning ''Npose'' w1 = Some (Inr (Exit b v)) \<longrightarrow>
        calibrateWithType abandoning ''Npose'' fresh = Some (Inr (b, v))"
    using waits [where h = abandoning and w = fresh and calibrationType = "''Npose''"
        and startingFrame = 0 and endingFrame = 0 and bodyDimensions = "[]"
        and phase = 0 and calibPhases = "[]"]
    by - (elim conjE, assumption)
  with abandoning_discard abandoning_collection
  show "calibrateWithType abandoning ''Npose'' fresh
       = Some (Inr (False,
           \<lparr> calib = cleanup (XSensMVNCalibrator ACCEPTABLE),
             calls = [IsCalibrationPerformed ''Npose'', IsCalibrationPerformed ''Npose'',
                      InitializeCalibration ''Npose'', CalibrationPhaseList, StartCalibration,
                      CalibrationPhaseText 0, CalibrationPose 0, CalibrationPose 1],
             clock = 3032 \<rparr>))"
    by blast
qed

end
